theory Spec2Isabelle
  imports Main "HOL-Library.Word"
begin

section \<open>JavaScript values\<close>

text \<open>
  A JavaScript string is a sequence of 16-bit code units, and \<open>length\<close> counts code
  units; \<open>js\<close> turns an ASCII literal of the theory into such a string.
  Numbers are modelled by the integers: the code below only tests a number for
  truthiness and for being a string, and there every non-zero number behaves alike.
  An object is the list of its own properties; a property is read by its key
  (\<open>obj_get\<close>), and reading a missing property gives \<open>undefined\<close>: none of the keys the
  code reads is inherited from \<open>Object.prototype\<close>. The order of the list is the order
  in which the properties were written, which is the order JavaScript enumerates keys
  in when none of them is an array index.
\<close>

type_synonym codeunit = "16 word"
type_synonym jsstring = "codeunit list"

definition js :: "string \<Rightarrow> jsstring" where
  "js s = map of_char s"

datatype jsval =
    JUndefined
  | JNull
  | JBool bool
  | JNum int
  | JStr jsstring
  | JArr "jsval list"
  | JObj "(jsstring \<times> jsval) list"

type_synonym jsobject = "(jsstring \<times> jsval) list"

definition obj_get :: "jsobject \<Rightarrow> jsstring \<Rightarrow> jsval" where
  "obj_get obj k = (case map_of obj k of None \<Rightarrow> JUndefined | Some v \<Rightarrow> v)"

definition obj_keys :: "jsobject \<Rightarrow> jsstring set" where
  "obj_keys obj = fst ` set obj"

text \<open>\<open>v.k\<close> for a value that is not \<open>null\<close> or \<open>undefined\<close>: none of the keys read
  below is a property of an array, a string, a number or a boolean.\<close>

fun get_prop :: "jsval \<Rightarrow> jsstring \<Rightarrow> jsval" where
  "get_prop (JObj obj) k = obj_get obj k"
| "get_prop _ k = JUndefined"

text \<open>The operand test of \<open>?:\<close>, \<open>&&\<close>, \<open>||\<close>, \<open>!\<close> and \<open>Boolean(...)\<close>.\<close>

fun truthy :: "jsval \<Rightarrow> bool" where
  "truthy JUndefined = False"
| "truthy JNull = False"
| "truthy (JBool b) = b"
| "truthy (JNum n) = (n \<noteq> 0)"
| "truthy (JStr s) = (s \<noteq> [])"
| "truthy (JArr xs) = True"
| "truthy (JObj obj) = True"

definition js_or :: "jsval \<Rightarrow> jsval \<Rightarrow> jsval" where
  "js_or a b = (if truthy a then a else b)"

subsection \<open>Strings\<close>

text \<open>White space and line terminators of ECMAScript: what \<open>trim\<close> strips and what
  the class \<open>\s\<close> of a regular expression matches.\<close>

definition whitespace_units :: "codeunit list" where
  "whitespace_units =
     [0x0009, 0x000A, 0x000B, 0x000C, 0x000D, 0x0020, 0x00A0, 0x1680,
      0x2000, 0x2001, 0x2002, 0x2003, 0x2004, 0x2005, 0x2006, 0x2007,
      0x2008, 0x2009, 0x200A, 0x2028, 0x2029, 0x202F, 0x205F, 0x3000, 0xFEFF]"

definition is_ws :: "codeunit \<Rightarrow> bool" where
  "is_ws c = (c \<in> set whitespace_units)"

definition trim :: "jsstring \<Rightarrow> jsstring" where
  "trim s = rev (dropWhile is_ws (rev (dropWhile is_ws s)))"

definition is_digit :: "codeunit \<Rightarrow> bool" where
  "is_digit c = (0x30 \<le> c \<and> c \<le> 0x39)"

definition is_lower :: "codeunit \<Rightarrow> bool" where
  "is_lower c = (0x61 \<le> c \<and> c \<le> 0x7A)"

definition is_upper :: "codeunit \<Rightarrow> bool" where
  "is_upper c = (0x41 \<le> c \<and> c \<le> 0x5A)"

definition is_word :: "codeunit \<Rightarrow> bool" where
  "is_word c = (is_lower c \<or> is_upper c \<or> is_digit c \<or> c = 0x5F)"

text \<open>Decimal text of a natural number, as a template literal prints a number below
  \<open>10^21\<close>: every length and every limit the code prints is one. \<open>digit_val\<close> reads a
  decimal digit.\<close>

function nat_to_string :: "nat \<Rightarrow> jsstring" where
  "nat_to_string n =
     (if n < 10 then [0x30 + of_nat n]
      else nat_to_string (n div 10) @ [0x30 + of_nat (n mod 10)])"
  by pat_completeness auto
termination
  by (relation "measure id") auto

declare nat_to_string.simps [simp del]

definition int_to_string :: "int \<Rightarrow> jsstring" where
  "int_to_string n =
     (if n < 0 then js ''-'' @ nat_to_string (nat (- n)) else nat_to_string (nat n))"

definition digit_val :: "codeunit \<Rightarrow> nat" where
  "digit_val c = unat c - 48"

subsection \<open>Regular expressions\<close>

text \<open>
  The regular expressions of the source are concatenations of single characters,
  classes (\<open>\s\<close>, \<open>\w\<close>, \<open>\d\<close>), \<open>x+\<close> and \<open>x{n}\<close>; they are either unanchored with
  the flag \<open>i\<close>, or of the form \<open>^...$\<close>. No regular expression has the flag \<open>g\<close>, so
  \<open>test\<close> keeps no state between calls.

  With the flag \<open>i\<close> (and no flag \<open>u\<close>) two code units match when they canonicalize to
  the same code unit; a code unit outside ASCII never canonicalizes to an ASCII one,
  so against the ASCII characters of the source's patterns the comparison is the
  ASCII one modelled here. Classes are not changed by the flag.
\<close>

datatype atom = Chr codeunit | Space | Word | Digit

datatype piece = Once atom | Plus atom | Times nat atom

record regex =
  pieces :: "piece list"
  anchored :: bool
  ignoreCase :: bool

definition canonicalize :: "codeunit \<Rightarrow> codeunit" where
  "canonicalize c = (if is_lower c then c - 0x20 else c)"

fun atom_ok :: "bool \<Rightarrow> atom \<Rightarrow> codeunit \<Rightarrow> bool" where
  "atom_ok ic (Chr p) c = (if ic then canonicalize p = canonicalize c else p = c)"
| "atom_ok ic Space c = is_ws c"
| "atom_ok ic Word c = is_word c"
| "atom_ok ic Digit c = is_digit c"

text \<open>\<open>match_here ic ps e s\<close>: the pieces \<open>ps\<close> match a prefix of \<open>s\<close> (all of \<open>s\<close> when
  \<open>e\<close>, the anchor \<open>$\<close>), trying the longer repetition first and then the shorter.\<close>

fun match_here :: "bool \<Rightarrow> piece list \<Rightarrow> bool \<Rightarrow> jsstring \<Rightarrow> bool" where
  "match_here ic [] e s = (if e then s = [] else True)"
| "match_here ic (Once a # ps) e [] = False"
| "match_here ic (Once a # ps) e (c # cs) = (atom_ok ic a c \<and> match_here ic ps e cs)"
| "match_here ic (Plus a # ps) e [] = False"
| "match_here ic (Plus a # ps) e (c # cs) =
     (atom_ok ic a c \<and> (match_here ic (Plus a # ps) e cs \<or> match_here ic ps e cs))"
| "match_here ic (Times 0 a # ps) e s = match_here ic ps e s"
| "match_here ic (Times (Suc n) a # ps) e [] = False"
| "match_here ic (Times (Suc n) a # ps) e (c # cs) =
     (atom_ok ic a c \<and> match_here ic (Times n a # ps) e cs)"

fun search :: "bool \<Rightarrow> piece list \<Rightarrow> jsstring \<Rightarrow> bool" where
  "search ic ps [] = match_here ic ps False []"
| "search ic ps (c # cs) = (match_here ic ps False (c # cs) \<or> search ic ps cs)"

definition regex_test :: "regex \<Rightarrow> jsstring \<Rightarrow> bool" where
  "regex_test r s =
     (if anchored r then match_here (ignoreCase r) (pieces r) True s
      else search (ignoreCase r) (pieces r) s)"

definition lits :: "string \<Rightarrow> piece list" where
  "lits s = map (\<lambda>c. Once (Chr (of_char c))) s"

text \<open>The strings a regular expression denotes, stated without reference to the
  matcher: a piece list denotes the concatenations of what its pieces denote.\<close>

fun piece_lang :: "bool \<Rightarrow> piece \<Rightarrow> jsstring set" where
  "piece_lang ic (Once a) = {[c] | c. atom_ok ic a c}"
| "piece_lang ic (Plus a) = {cs. cs \<noteq> [] \<and> list_all (atom_ok ic a) cs}"
| "piece_lang ic (Times n a) = {cs. length cs = n \<and> list_all (atom_ok ic a) cs}"

fun pieces_lang :: "bool \<Rightarrow> piece list \<Rightarrow> jsstring set" where
  "pieces_lang ic [] = {[]}"
| "pieces_lang ic (p # ps) = {u @ v | u v. u \<in> piece_lang ic p \<and> v \<in> pieces_lang ic ps}"

definition regex_lang :: "regex \<Rightarrow> jsstring set" where
  "regex_lang r = pieces_lang (ignoreCase r) (pieces r)"

section \<open>Errors and configuration\<close>

text \<open>
  A thrown error is a value. \<open>McpError\<close> carries the protocol's error code and the
  message given to its constructor, and its \<open>message\<close> property reads
  \<open>MCP error <code>: <message>\<close>, as the constructor of the protocol library stores it;
  \<open>JXAExecutionError\<close> prefixes its message and has the code \<open>'JXA_EXECUTION_ERROR'\<close>;
  \<open>ExecException\<close> is what the process executor rejects with (its \<open>code\<close> and its
  message).
\<close>

datatype ErrorCode = InvalidParams | InternalError | MethodNotFound

datatype js_error =
    McpError ErrorCode jsstring
  | Error jsstring
  | JXAExecutionError jsstring
  | ExecException jsval jsstring

fun ErrorCode_number :: "ErrorCode \<Rightarrow> int" where
  "ErrorCode_number InvalidParams = - 32602"
| "ErrorCode_number InternalError = - 32603"
| "ErrorCode_number MethodNotFound = - 32601"

fun error_message :: "js_error \<Rightarrow> jsstring" where
  "error_message (McpError c m) =
     js ''MCP error '' @ int_to_string (ErrorCode_number c) @ js '': '' @ m"
| "error_message (Error m) = m"
| "error_message (JXAExecutionError m) = js ''JXA execution failed: '' @ m"
| "error_message (ExecException c m) = m"

fun error_code :: "js_error \<Rightarrow> jsval" where
  "error_code (McpError c m) = JNum (ErrorCode_number c)"
| "error_code (Error m) = JUndefined"
| "error_code (JXAExecutionError m) = JStr (js ''JXA_EXECUTION_ERROR'')"
| "error_code (ExecException c m) = c"

text \<open>\<open>SERVER_CONFIG.validation\<close> and \<open>ERROR_MESSAGES\<close>.\<close>

definition maxStringLength :: nat where "maxStringLength = 2000"
definition maxArrayLength :: nat where "maxArrayLength = 100"
definition maxNotesLength :: nat where "maxNotesLength = 10000"
definition maxScriptSize :: nat where "maxScriptSize = 100 * 1024"
definition JXA_TIMEOUT :: jsstring where "JXA_TIMEOUT = js ''JXA execution timed out''"

section \<open>ThingsValidator\<close>

definition dangerousPatterns :: "regex list" where
  "dangerousPatterns =
     [\<lparr>pieces = lits ''tell'' @ [Plus Space] @ lits ''application'',
        anchored = False, ignoreCase = True\<rparr>,
      \<lparr>pieces = lits ''end'' @ [Plus Space] @ lits ''tell'',
        anchored = False, ignoreCase = True\<rparr>,
      \<lparr>pieces = lits ''set'' @ [Plus Space, Plus Word, Plus Space] @ lits ''to'',
        anchored = False, ignoreCase = True\<rparr>,
      \<lparr>pieces = lits ''do'' @ [Plus Space] @ lits ''shell'' @ [Plus Space] @ lits ''script'',
        anchored = False, ignoreCase = True\<rparr>,
      \<lparr>pieces = lits ''osascript'', anchored = False, ignoreCase = True\<rparr>]"

definition validateStringInput :: "jsval \<Rightarrow> jsstring \<Rightarrow> nat \<Rightarrow> js_error + jsstring" where
  "validateStringInput input fieldName maxLength =
     (case input of
        JStr s \<Rightarrow>
          if length s = 0 then
            Inl (McpError InvalidParams (fieldName @ js '' cannot be empty''))
          else if length s > maxLength then
            Inl (McpError InvalidParams
                  (fieldName @ js '' cannot exceed '' @ nat_to_string maxLength @ js '' characters''))
          else if list_ex (\<lambda>pattern. regex_test pattern s) dangerousPatterns then
            Inl (McpError InvalidParams
                  (fieldName @ js '' contains potentially dangerous script patterns''))
          else Inr (trim s)
      | _ \<Rightarrow> Inl (McpError InvalidParams (fieldName @ js '' must be a string'')))"

text \<open>\<open>input.map(f)\<close> where \<open>f\<close> may throw: the first failing item ends the map.\<close>

fun map_result :: "('a \<Rightarrow> 'e + 'b) \<Rightarrow> 'a list \<Rightarrow> 'e + 'b list" where
  "map_result f [] = Inr []"
| "map_result f (x # xs) =
     (case f x of
        Inl e \<Rightarrow> Inl e
      | Inr y \<Rightarrow> (case map_result f xs of Inl e \<Rightarrow> Inl e | Inr ys \<Rightarrow> Inr (y # ys)))"

definition validateArrayInput :: "jsval \<Rightarrow> jsstring \<Rightarrow> nat \<Rightarrow> js_error + jsstring list" where
  "validateArrayInput input fieldName maxItems =
     (case input of
        JArr items \<Rightarrow>
          if length items > maxItems then
            Inl (McpError InvalidParams
                  (fieldName @ js '' cannot exceed '' @ nat_to_string maxItems @ js '' items''))
          else map_result (\<lambda>item. validateStringInput item (fieldName @ js '' item'') 100) items
      | _ \<Rightarrow> Inl (McpError InvalidParams (fieldName @ js '' must be an array'')))"

definition dateRegex :: regex where
  "dateRegex =
     \<lparr>pieces = [Times 4 Digit, Once (Chr 0x2D), Times 2 Digit, Once (Chr 0x2D), Times 2 Digit],
      anchored = True, ignoreCase = False\<rparr>"

text \<open>
  \<open>isNaN(new Date(input).getTime())\<close> for an \<open>input\<close> that passed \<open>dateRegex\<close>, on the
  engine the package runs on (\<open>"engines": {"node": ">=18.0.0"}\<close>, that is V8). V8 reads
  the form \<open>YYYY-MM-DD\<close> with its ISO parser, which takes any four-digit year and wants
  the month within 01..12 and the day within 01..31 whatever the month; a day past the
  end of the month is carried into the next month (\<open>2024-02-30\<close> reads as 1 March
  2024). When the month or the day is out of that range, V8 hands the three numbers to
  its legacy parser, which reads them as month, day and year when the first is within
  1..31: that is a date when the first number is within 1..12 and the second within
  1..31 (\<open>0001-01-32\<close> reads as 1 January 2032), and an invalid date otherwise. The
  function is only called on strings of ten code units that matched \<open>dateRegex\<close>.
\<close>

definition date_month :: "jsstring \<Rightarrow> nat" where
  "date_month s = 10 * digit_val (s ! 5) + digit_val (s ! 6)"

definition date_day :: "jsstring \<Rightarrow> nat" where
  "date_day s = 10 * digit_val (s ! 8) + digit_val (s ! 9)"

definition date_year :: "jsstring \<Rightarrow> nat" where
  "date_year s =
     1000 * digit_val (s ! 0) + 100 * digit_val (s ! 1) + 10 * digit_val (s ! 2) + digit_val (s ! 3)"

definition Date_isNaN :: "jsstring \<Rightarrow> bool" where
  "Date_isNaN s =
     (\<not> (length s = 10
          \<and> ((1 \<le> date_month s \<and> date_month s \<le> 12 \<and> 1 \<le> date_day s \<and> date_day s \<le> 31)
               \<or> (1 \<le> date_year s \<and> date_year s \<le> 12
                   \<and> 1 \<le> date_month s \<and> date_month s \<le> 31))))"

definition validateDateInput :: "jsval \<Rightarrow> jsstring \<Rightarrow> js_error + jsstring" where
  "validateDateInput input fieldName =
     (case input of
        JStr s \<Rightarrow>
          if \<not> regex_test dateRegex s then
            Inl (McpError InvalidParams (fieldName @ js '' must be in YYYY-MM-DD format''))
          else if Date_isNaN s then
            Inl (McpError InvalidParams (fieldName @ js '' is not a valid date''))
          else Inr s
      | _ \<Rightarrow> Inl (McpError InvalidParams
                  (fieldName @ js '' must be a string in YYYY-MM-DD format'')))"

section \<open>ParameterMapper\<close>

text \<open>
  The object literal of \<open>validateAndMapParameters\<close> evaluates its property values in
  order, so the first validation that throws decides the error (\<open>sequence_fields\<close>);
  \<open>...additionalFields\<close> then writes each of its properties over the literal's
  (\<open>spread\<close>), and the entries whose value is \<open>null\<close> are filtered out. A property
  that is new to an object comes last in its enumeration, except that a key that is an
  array index (\<open>"0"\<close>, \<open>"1"\<close>, ... below \<open>2^32 - 1\<close>) comes before every other key, in
  numeric order.
\<close>

definition index_value :: "jsstring \<Rightarrow> int" where
  "index_value k = foldl (\<lambda>a c. 10 * a + int (digit_val c)) 0 k"

definition is_array_index :: "jsstring \<Rightarrow> bool" where
  "is_array_index k =
     (k \<noteq> [] \<and> list_all is_digit k \<and> (hd k \<noteq> 0x30 \<or> k = [0x30])
      \<and> index_value k < 4294967295)"

fun insert_index :: "jsobject \<Rightarrow> jsstring \<Rightarrow> jsval \<Rightarrow> jsobject" where
  "insert_index [] k v = [(k, v)]"
| "insert_index ((k', v') # rest) k v =
     (if is_array_index k' \<and> index_value k' < index_value k
      then (k', v') # insert_index rest k v
      else (k, v) # (k', v') # rest)"

fun sequence_fields :: "(jsstring \<times> (js_error + jsval)) list \<Rightarrow> js_error + jsobject" where
  "sequence_fields [] = Inr []"
| "sequence_fields ((k, Inl e) # rest) = Inl e"
| "sequence_fields ((k, Inr v) # rest) =
     (case sequence_fields rest of Inl e \<Rightarrow> Inl e | Inr obj \<Rightarrow> Inr ((k, v) # obj))"

definition obj_set :: "jsobject \<Rightarrow> jsstring \<Rightarrow> jsval \<Rightarrow> jsobject" where
  "obj_set obj k v =
     (if k \<in> set (map fst obj)
      then map (\<lambda>(k', v'). if k' = k then (k', v) else (k', v')) obj
      else if is_array_index k then insert_index obj k v
      else obj @ [(k, v)])"

definition spread :: "jsobject \<Rightarrow> jsobject \<Rightarrow> jsobject" where
  "spread obj extra = foldl (\<lambda>acc (k, v). obj_set acc k v) obj extra"

definition string_field :: "jsval \<Rightarrow> jsstring \<Rightarrow> nat \<Rightarrow> js_error + jsval" where
  "string_field v fieldName maxLength = map_sum id JStr (validateStringInput v fieldName maxLength)"

definition date_field :: "jsval \<Rightarrow> jsstring \<Rightarrow> js_error + jsval" where
  "date_field v fieldName = map_sum id JStr (validateDateInput v fieldName)"

definition array_field :: "jsval \<Rightarrow> jsstring \<Rightarrow> js_error + jsval" where
  "array_field v fieldName =
     map_sum id (\<lambda>items. JArr (map JStr items)) (validateArrayInput v fieldName maxArrayLength)"

definition mapped_fields :: "jsobject \<Rightarrow> (jsstring \<times> (js_error + jsval)) list" where
  "mapped_fields args =
     [(js ''name'',
         if truthy (obj_get args (js ''title''))
         then string_field (obj_get args (js ''title'')) (js ''title'') maxStringLength
         else if truthy (obj_get args (js ''name''))
         then string_field (obj_get args (js ''name'')) (js ''name'') maxStringLength
         else Inr JNull),
      (js ''title'',
         if truthy (obj_get args (js ''title''))
         then string_field (obj_get args (js ''title'')) (js ''title'') maxStringLength
         else Inr JNull),
      (js ''id'',
         if truthy (obj_get args (js ''id''))
         then string_field (obj_get args (js ''id'')) (js ''id'') maxStringLength
         else Inr JNull),
      (js ''notes'',
         if truthy (obj_get args (js ''notes''))
         then string_field (obj_get args (js ''notes'')) (js ''notes'') maxNotesLength
         else Inr JNull),
      (js ''activation_date'',
         if truthy (obj_get args (js ''when''))
         then date_field (obj_get args (js ''when'')) (js ''when'')
         else if truthy (obj_get args (js ''due_date''))
         then date_field (obj_get args (js ''due_date'')) (js ''due_date'')
         else Inr JNull),
      (js ''due_date'',
         if truthy (obj_get args (js ''deadline''))
         then date_field (obj_get args (js ''deadline'')) (js ''deadline'')
         else Inr JNull),
      (js ''area'',
         if truthy (obj_get args (js ''area_title''))
         then string_field (obj_get args (js ''area_title'')) (js ''area_title'') maxStringLength
         else if truthy (obj_get args (js ''area''))
         then string_field (obj_get args (js ''area'')) (js ''area'') maxStringLength
         else Inr JNull),
      (js ''area_id'',
         if truthy (obj_get args (js ''area_id''))
         then string_field (obj_get args (js ''area_id'')) (js ''area_id'') maxStringLength
         else Inr JNull),
      (js ''project'',
         if truthy (obj_get args (js ''list_title''))
         then string_field (obj_get args (js ''list_title'')) (js ''list_title'') maxStringLength
         else if truthy (obj_get args (js ''project''))
         then string_field (obj_get args (js ''project'')) (js ''project'') maxStringLength
         else Inr JNull),
      (js ''list_id'',
         if truthy (obj_get args (js ''list_id''))
         then string_field (obj_get args (js ''list_id'')) (js ''list_id'') maxStringLength
         else Inr JNull),
      (js ''tags'',
         if truthy (obj_get args (js ''tags''))
         then array_field (obj_get args (js ''tags'')) (js ''tags'')
         else Inr JNull),
      (js ''checklist_items'',
         if truthy (obj_get args (js ''checklist_items''))
         then array_field (obj_get args (js ''checklist_items'')) (js ''checklist_items'')
         else Inr JNull),
      (js ''todos'',
         if truthy (obj_get args (js ''todos''))
         then array_field (obj_get args (js ''todos'')) (js ''todos'')
         else Inr JNull),
      (js ''heading'',
         if truthy (obj_get args (js ''heading''))
         then string_field (obj_get args (js ''heading'')) (js ''heading'') maxStringLength
         else Inr JNull),
      (js ''completed'',
         if obj_get args (js ''completed'') \<noteq> JUndefined
         then Inr (JBool (truthy (obj_get args (js ''completed''))))
         else Inr JNull),
      (js ''canceled'',
         if obj_get args (js ''canceled'') \<noteq> JUndefined
         then Inr (JBool (truthy (obj_get args (js ''canceled''))))
         else Inr JNull)]"

definition validateAndMapParameters :: "jsobject \<Rightarrow> jsobject \<Rightarrow> js_error + jsobject" where
  "validateAndMapParameters args additionalFields =
     (case sequence_fields (mapped_fields args) of
        Inl e \<Rightarrow> Inl e
      | Inr result \<Rightarrow> Inr (filter (\<lambda>(k, v). v \<noteq> JNull) (spread result additionalFields)))"

section \<open>Script execution\<close>

text \<open>
  What the server does not compute itself is a parameter: the process executor
  (\<open>execAsync\<close> of the command line built from the script and the parameters, which
  either returns the two output streams or rejects with an error that has a \<open>code\<close> and a
  message), \<open>JSON.parse\<close> (the parsed value, or the message of its \<open>SyntaxError\<close>) and
  the text the engine prints for a number of magnitude \<open>10^21\<close> or more, which is in
  exponent notation. Every function that may run a script also returns the list of the
  executor's calls it made, so that "no execution was attempted" is the empty list.
  Logging writes to the error stream only and is left out.
\<close>

datatype exec_outcome = ExecReturns jsstring jsstring | ExecThrows jsval jsstring

record runtime =
  execAsync :: "jsstring \<Rightarrow> jsval \<Rightarrow> exec_outcome"
  JSON_parse :: "jsstring \<Rightarrow> jsstring + jsval"
  Number_toString_large :: "int \<Rightarrow> jsstring"

type_synonym exec_calls = "(jsstring \<times> jsval) list"

text \<open>The text of a number, and the text a template literal or an \<open>Error\<close> constructor
  makes of a value.\<close>

definition Number_toString :: "runtime \<Rightarrow> int \<Rightarrow> jsstring" where
  "Number_toString rt n =
     (if \<bar>n\<bar> < 1000000000000000000000 then int_to_string n else Number_toString_large rt n)"

fun join_comma :: "jsstring list \<Rightarrow> jsstring" where
  "join_comma [] = []"
| "join_comma [x] = x"
| "join_comma (x # y # ys) = x @ js '','' @ join_comma (y # ys)"

fun ToString :: "runtime \<Rightarrow> jsval \<Rightarrow> jsstring" where
  "ToString rt JUndefined = js ''undefined''"
| "ToString rt JNull = js ''null''"
| "ToString rt (JBool b) = (if b then js ''true'' else js ''false'')"
| "ToString rt (JNum n) = Number_toString rt n"
| "ToString rt (JStr s) = s"
| "ToString rt (JArr xs) =
     join_comma (map (\<lambda>x. if x = JUndefined \<or> x = JNull then [] else ToString rt x) xs)"
| "ToString rt (JObj obj) = js ''[object Object]''"

text \<open>
  \<open>JSON.stringify\<close>. A string is written in quotes, with the quote, the backslash and
  the control characters escaped, and a surrogate that has no partner written as
  \<open>\uXXXX\<close>; a property whose value is \<open>undefined\<close> is left out of an object, and
  \<open>undefined\<close> in an array is written \<open>null\<close>; \<open>JSON.stringify(undefined)\<close> is
  \<open>undefined\<close> (\<open>None\<close>).
\<close>

definition hex_digit :: "codeunit \<Rightarrow> codeunit" where
  "hex_digit d = (if d < 10 then 0x30 + d else 0x61 + (d - 10))"

definition unicode_escape :: "codeunit \<Rightarrow> jsstring" where
  "unicode_escape c =
     [0x5C, 0x75, hex_digit (drop_bit 12 c), hex_digit (take_bit 4 (drop_bit 8 c)),
      hex_digit (take_bit 4 (drop_bit 4 c)), hex_digit (take_bit 4 c)]"

definition is_high_surrogate :: "codeunit \<Rightarrow> bool" where
  "is_high_surrogate c = (0xD800 \<le> c \<and> c \<le> 0xDBFF)"

definition is_low_surrogate :: "codeunit \<Rightarrow> bool" where
  "is_low_surrogate c = (0xDC00 \<le> c \<and> c \<le> 0xDFFF)"

definition quote_unit :: "codeunit \<Rightarrow> jsstring" where
  "quote_unit c =
     (if c = 0x08 then [0x5C, 0x62]
      else if c = 0x09 then [0x5C, 0x74]
      else if c = 0x0A then [0x5C, 0x6E]
      else if c = 0x0C then [0x5C, 0x66]
      else if c = 0x0D then [0x5C, 0x72]
      else if c = 0x22 then [0x5C, 0x22]
      else if c = 0x5C then [0x5C, 0x5C]
      else if c < 0x20 \<or> is_high_surrogate c \<or> is_low_surrogate c then unicode_escape c
      else [c])"

fun quote_units :: "jsstring \<Rightarrow> jsstring" where
  "quote_units [] = []"
| "quote_units [c] = quote_unit c"
| "quote_units (c # d # ds) =
     (if is_high_surrogate c \<and> is_low_surrogate d then c # d # quote_units ds
      else quote_unit c @ quote_units (d # ds))"

definition JSON_quote :: "jsstring \<Rightarrow> jsstring" where
  "JSON_quote s = [0x22] @ quote_units s @ [0x22]"

fun JSON_stringify :: "runtime \<Rightarrow> jsval \<Rightarrow> jsstring option" where
  "JSON_stringify rt JUndefined = None"
| "JSON_stringify rt JNull = Some (js ''null'')"
| "JSON_stringify rt (JBool b) = Some (if b then js ''true'' else js ''false'')"
| "JSON_stringify rt (JNum n) = Some (Number_toString rt n)"
| "JSON_stringify rt (JStr s) = Some (JSON_quote s)"
| "JSON_stringify rt (JArr xs) =
     Some (js ''['' @ join_comma (map (\<lambda>x. case JSON_stringify rt x of
                                            None \<Rightarrow> js ''null'' | Some t \<Rightarrow> t) xs)
           @ js '']'')"
| "JSON_stringify rt (JObj obj) =
     Some (js ''{'' @ join_comma (concat (map (\<lambda>kv. case JSON_stringify rt (snd kv) of
                                                     None \<Rightarrow> []
                                                   | Some t \<Rightarrow> [JSON_quote (fst kv) @ js '':'' @ t])
                                             obj))
           @ js ''}'')"

text \<open>The inner \<open>try\<close> of \<open>executeJXA\<close>: the \<open>JXAExecutionError\<close> thrown for a response
  with \<open>success === false\<close> is thrown inside that \<open>try\<close>, so its \<open>catch\<close> wraps it as it
  wraps a parse failure. Reading \<open>parsed.success\<close> of \<open>null\<close> is a \<open>TypeError\<close>.\<close>

definition parse_response :: "runtime \<Rightarrow> jsstring \<Rightarrow> js_error + jsval" where
  "parse_response rt result =
     (case JSON_parse rt result of
        Inl parseMessage \<Rightarrow> Inl (JXAExecutionError (js ''Invalid JXA response: '' @ parseMessage))
      | Inr parsed \<Rightarrow>
          if parsed = JNull then
            Inl (JXAExecutionError
                  (js ''Invalid JXA response: Cannot read properties of null (reading ''
                   @ [0x27] @ js ''success'' @ [0x27] @ js '')''))
          else if get_prop parsed (js ''success'') = JBool False
                  \<and> truthy (get_prop parsed (js ''error'')) then
            Inl (JXAExecutionError
                  (js ''Invalid JXA response: ''
                   @ error_message (JXAExecutionError
                       (ToString rt
                          (js_or (get_prop (get_prop parsed (js ''error'')) (js ''message''))
                                 (JStr (js ''JXA script returned an error'')))))))
          else Inr parsed)"

text \<open>The outer \<open>try\<close> block of \<open>executeJXA\<close>, from the size check to the parsed
  response.\<close>

definition executeJXA_try :: "runtime \<Rightarrow> jsstring \<Rightarrow> jsval \<Rightarrow> (js_error + jsval) \<times> exec_calls" where
  "executeJXA_try rt script params =
     (if length script > maxScriptSize then
        (Inl (McpError InvalidParams
               (js ''Generated JXA script too large: '' @ nat_to_string (length script)
                @ js '' bytes (max: '' @ nat_to_string maxScriptSize @ js '')'')), [])
      else
        (case execAsync rt script params of
           ExecThrows code msg \<Rightarrow> Inl (ExecException code msg)
         | ExecReturns stdout stderr \<Rightarrow>
             if stderr \<noteq> [] then Inl (Error (js ''JXA error: '' @ stderr))
             else parse_response rt (trim stdout),
         [(script, params)]))"

text \<open>\<open>executeJXA\<close>: whatever the \<open>try\<close> block throws, the \<open>catch\<close> throws an
  \<open>McpError\<close> with the code \<open>InternalError\<close> in its place.\<close>

definition executeJXA :: "runtime \<Rightarrow> jsstring \<Rightarrow> jsval \<Rightarrow> (js_error + jsval) \<times> exec_calls" where
  "executeJXA rt script params =
     (case executeJXA_try rt script params of
        (Inr parsed, calls) \<Rightarrow> (Inr parsed, calls)
      | (Inl error, calls) \<Rightarrow>
          (if error_code error = JStr (js ''ETIMEDOUT'')
           then Inl (McpError InternalError JXA_TIMEOUT)
           else Inl (McpError InternalError (js ''JXA execution failed: '' @ error_message error)),
           calls))"

text \<open>\<open>result.error?.message\<close>.\<close>

definition optional_error_message :: "jsval \<Rightarrow> jsval" where
  "optional_error_message result =
     (if get_prop result (js ''error'') = JUndefined \<or> get_prop result (js ''error'') = JNull
      then JUndefined
      else get_prop (get_prop result (js ''error'')) (js ''message''))"

text \<open>\<open>executeThingsJXA\<close>; \<open>script\<close> is the text \<open>templateFunction(params)\<close> returns (the
  templates take no arguments). Its \<open>catch\<close> logs and throws the same error again.\<close>

definition executeThingsJXA :: "runtime \<Rightarrow> jsstring \<Rightarrow> jsval \<Rightarrow> (js_error + jsval) \<times> exec_calls" where
  "executeThingsJXA rt script params =
     (case executeJXA rt script params of
        (Inl error, calls) \<Rightarrow> (Inl error, calls)
      | (Inr result, calls) \<Rightarrow>
          (if truthy (get_prop result (js ''success'')) \<and> truthy (get_prop result (js ''data''))
           then Inr (get_prop result (js ''data''))
           else Inl (Error (ToString rt (js_or (optional_error_message result)
                                               (JStr (js ''Unknown error occurred''))))),
           calls))"

section \<open>Tool handlers\<close>

text \<open>\<open>ResponseFormatter.createSuccessResponse\<close>.\<close>

definition createSuccessResponse :: "runtime \<Rightarrow> jsval \<Rightarrow> jsval" where
  "createSuccessResponse rt data =
     JObj [(js ''content'',
            JArr [JObj [(js ''type'', JStr (js ''text'')),
                        (js ''text'', (case JSON_stringify rt data of
                                         None \<Rightarrow> JUndefined | Some t \<Rightarrow> JStr t))]])]"

text \<open>The data of the three soft failures and of the matching successes.\<close>

definition not_found_data :: "runtime \<Rightarrow> jsstring \<Rightarrow> jsstring \<Rightarrow> jsval \<Rightarrow> jsval" where
  "not_found_data rt prefix code ident =
     JObj [(js ''success'', JBool False),
           (js ''message'', JStr (prefix @ ToString rt ident)),
           (js ''error'', JStr code)]"

definition updated_data :: "runtime \<Rightarrow> jsstring \<Rightarrow> jsval \<Rightarrow> jsval" where
  "updated_data rt prefix ident =
     JObj [(js ''success'', JBool True), (js ''message'', JStr (prefix @ ToString rt ident))]"

text \<open>The parameter objects the two update handlers hand to the script; a property
  the mapped parameters do not have is \<open>undefined\<close> here.\<close>

definition updateTodo_params :: "jsobject \<Rightarrow> jsval" where
  "updateTodo_params scriptParams =
     JObj [(js ''id'', obj_get scriptParams (js ''id'')),
           (js ''title'', js_or (obj_get scriptParams (js ''title''))
                                (obj_get scriptParams (js ''new_name''))),
           (js ''notes'', obj_get scriptParams (js ''notes'')),
           (js ''deadline'', obj_get scriptParams (js ''due_date'')),
           (js ''when'', obj_get scriptParams (js ''activation_date'')),
           (js ''tags'', obj_get scriptParams (js ''tags'')),
           (js ''checklist_items'', obj_get scriptParams (js ''checklist_items'')),
           (js ''completed'', obj_get scriptParams (js ''completed'')),
           (js ''canceled'', obj_get scriptParams (js ''canceled''))]"

definition updateProject_params :: "jsobject \<Rightarrow> jsval" where
  "updateProject_params scriptParams =
     JObj [(js ''id'', obj_get scriptParams (js ''id'')),
           (js ''title'', obj_get scriptParams (js ''title'')),
           (js ''notes'', obj_get scriptParams (js ''notes'')),
           (js ''deadline'', obj_get scriptParams (js ''due_date'')),
           (js ''when'', obj_get scriptParams (js ''activation_date'')),
           (js ''tags'', obj_get scriptParams (js ''tags'')),
           (js ''completed'', obj_get scriptParams (js ''completed'')),
           (js ''canceled'', obj_get scriptParams (js ''canceled''))]"

text \<open>\<open>updateTodo\<close>; \<open>script\<close> is the text of \<open>JXATemplates.updateTodo()\<close>.\<close>

definition updateTodo :: "runtime \<Rightarrow> jsstring \<Rightarrow> jsobject \<Rightarrow> (js_error + jsval) \<times> exec_calls" where
  "updateTodo rt script args =
     (case validateAndMapParameters args [] of
        Inl e \<Rightarrow> (Inl e, [])
      | Inr scriptParams \<Rightarrow>
          if \<not> truthy (obj_get scriptParams (js ''id'')) then
            (Inl (McpError InvalidParams (js ''Todo ID is required for update'')), [])
          else
            (case executeThingsJXA rt script (updateTodo_params scriptParams) of
               (Inr result, calls) \<Rightarrow>
                 (Inr (createSuccessResponse rt
                        (updated_data rt (js ''Updated to-do: '') (obj_get scriptParams (js ''id'')))),
                  calls)
             | (Inl error, calls) \<Rightarrow>
                 (Inr (createSuccessResponse rt
                        (not_found_data rt (js ''To-do not found: '') (js ''TODO_NOT_FOUND'')
                           (obj_get scriptParams (js ''id'')))),
                  calls)))"

text \<open>\<open>updateProject\<close>; \<open>script\<close> is the text of \<open>JXATemplates.updateProject()\<close>.\<close>

definition updateProject :: "runtime \<Rightarrow> jsstring \<Rightarrow> jsobject \<Rightarrow> (js_error + jsval) \<times> exec_calls" where
  "updateProject rt script args =
     (case validateAndMapParameters args [] of
        Inl e \<Rightarrow> (Inl e, [])
      | Inr scriptParams \<Rightarrow>
          if \<not> truthy (obj_get scriptParams (js ''id'')) then
            (Inl (McpError InvalidParams (js ''Project ID is required for update'')), [])
          else
            (case executeThingsJXA rt script (updateProject_params scriptParams) of
               (Inr result, calls) \<Rightarrow>
                 (Inr (createSuccessResponse rt
                        (updated_data rt (js ''Updated project: '') (obj_get scriptParams (js ''id'')))),
                  calls)
             | (Inl error, calls) \<Rightarrow>
                 (Inr (createSuccessResponse rt
                        (not_found_data rt (js ''Project not found: '') (js ''PROJECT_NOT_FOUND'')
                           (obj_get scriptParams (js ''id'')))),
                  calls)))"

text \<open>\<open>showItem\<close>; \<open>script\<close> is the text of \<open>JXATemplates.showItem()\<close>.\<close>

definition showItem :: "runtime \<Rightarrow> jsstring \<Rightarrow> jsobject \<Rightarrow> (js_error + jsval) \<times> exec_calls" where
  "showItem rt script args =
     (case validateStringInput (obj_get args (js ''id'')) (js ''id'') maxStringLength of
        Inl e \<Rightarrow> (Inl e, [])
      | Inr itemId \<Rightarrow>
          (case executeThingsJXA rt script (JObj [(js ''id'', JStr itemId)]) of
             (Inr item, calls) \<Rightarrow>
               (Inr (createSuccessResponse rt
                      (JObj [(js ''success'', JBool True), (js ''id'', JStr itemId),
                             (js ''item'', item)])),
                calls)
           | (Inl error, calls) \<Rightarrow>
               (Inr (createSuccessResponse rt
                      (not_found_data rt (js ''Item not found: '') (js ''ITEM_NOT_FOUND'')
                         (JStr itemId))),
                calls)))"

section \<open>Notions of the specification\<close>

text \<open>A real calendar date in the form \<open>YYYY-MM-DD\<close>: the month is one of the twelve
  and the day exists in that month of that year (Gregorian leap years).\<close>

definition leap_year :: "nat \<Rightarrow> bool" where
  "leap_year y = (y mod 4 = 0 \<and> (y mod 100 \<noteq> 0 \<or> y mod 400 = 0))"

definition days_in_month :: "nat \<Rightarrow> nat \<Rightarrow> nat" where
  "days_in_month y m =
     (if m = 2 then (if leap_year y then 29 else 28)
      else if m = 4 \<or> m = 6 \<or> m = 9 \<or> m = 11 then 30
      else 31)"

definition real_calendar_date :: "jsstring \<Rightarrow> bool" where
  "real_calendar_date s =
     (1 \<le> date_month s \<and> date_month s \<le> 12
      \<and> 1 \<le> date_day s \<and> date_day s \<le> days_in_month (date_year s) (date_month s))"

text \<open>An object with no property whose value is \<open>null\<close>, and one with none that is
  \<open>undefined\<close>.\<close>

definition no_null_values :: "jsobject \<Rightarrow> bool" where
  "no_null_values obj = list_all (\<lambda>(k, v). v \<noteq> JNull) obj"

definition no_undefined_values :: "jsobject \<Rightarrow> bool" where
  "no_undefined_values obj = list_all (\<lambda>(k, v). v \<noteq> JUndefined) obj"

text \<open>Some prefix of \<open>s\<close> (all of \<open>s\<close> when \<open>e\<close>) is a string the pieces denote.\<close>

definition matches_prefix :: "bool \<Rightarrow> piece list \<Rightarrow> bool \<Rightarrow> jsstring \<Rightarrow> bool" where
  "matches_prefix ic ps e s =
     (\<exists>m rest. s = m @ rest \<and> m \<in> pieces_lang ic ps \<and> (e \<longrightarrow> rest = []))"

text \<open>
  The table of the mapper, as the specification gives it: each key of the result with
  the validator of its values and the argument names it is read from, in order of
  precedence; and the two flags. A key is supplied when one of its argument names has a
  truthy value or, for a flag, when the argument is not \<open>undefined\<close>. The validated
  entry of a key is what the validator of the key returns for the first of its
  arguments that has a truthy value, read under the name of that argument; for a flag
  it is the argument as a Boolean.
\<close>

datatype field_kind = StringField nat | DateField | ArrayField

definition field_table :: "(jsstring \<times> field_kind \<times> jsstring list) list" where
  "field_table =
     [(js ''name'', StringField maxStringLength, [js ''title'', js ''name'']),
      (js ''title'', StringField maxStringLength, [js ''title'']),
      (js ''id'', StringField maxStringLength, [js ''id'']),
      (js ''notes'', StringField maxNotesLength, [js ''notes'']),
      (js ''activation_date'', DateField, [js ''when'', js ''due_date'']),
      (js ''due_date'', DateField, [js ''deadline'']),
      (js ''area'', StringField maxStringLength, [js ''area_title'', js ''area'']),
      (js ''area_id'', StringField maxStringLength, [js ''area_id'']),
      (js ''project'', StringField maxStringLength, [js ''list_title'', js ''project'']),
      (js ''list_id'', StringField maxStringLength, [js ''list_id'']),
      (js ''tags'', ArrayField, [js ''tags'']),
      (js ''checklist_items'', ArrayField, [js ''checklist_items'']),
      (js ''todos'', ArrayField, [js ''todos'']),
      (js ''heading'', StringField maxStringLength, [js ''heading''])]"

definition flag_keys :: "jsstring list" where
  "flag_keys = [js ''completed'', js ''canceled'']"

definition validate_field :: "field_kind \<Rightarrow> jsval \<Rightarrow> jsstring \<Rightarrow> js_error + jsval" where
  "validate_field kind v name =
     (case kind of
        StringField limit \<Rightarrow> map_sum id JStr (validateStringInput v name limit)
      | DateField \<Rightarrow> map_sum id JStr (validateDateInput v name)
      | ArrayField \<Rightarrow>
          map_sum id (\<lambda>items. JArr (map JStr items)) (validateArrayInput v name maxArrayLength))"

definition first_supplied :: "jsobject \<Rightarrow> jsstring list \<Rightarrow> jsstring option" where
  "first_supplied args sources = List.find (\<lambda>source. truthy (obj_get args source)) sources"

definition supplied :: "jsobject \<Rightarrow> jsstring \<Rightarrow> bool" where
  "supplied args k =
     (case map_of field_table k of
        Some (kind, sources) \<Rightarrow> list_ex (\<lambda>source. truthy (obj_get args source)) sources
      | None \<Rightarrow> k \<in> set flag_keys \<and> obj_get args k \<noteq> JUndefined)"

definition validated_entry :: "jsobject \<Rightarrow> jsstring \<Rightarrow> jsval \<Rightarrow> bool" where
  "validated_entry args k v =
     (case map_of field_table k of
        Some (kind, sources) \<Rightarrow>
          (case first_supplied args sources of
             Some source \<Rightarrow> validate_field kind (obj_get args source) source = Inr v
           | None \<Rightarrow> False)
      | None \<Rightarrow>
          k \<in> set flag_keys \<and> obj_get args k \<noteq> JUndefined
          \<and> v = JBool (truthy (obj_get args k)))"

text \<open>\<open>r\<close> is \<open>s\<close> trimmed: \<open>s\<close> is \<open>r\<close> between two runs of white space, and \<open>r\<close>
  neither begins nor ends with white space.\<close>

definition trimmed_of :: "jsstring \<Rightarrow> jsstring \<Rightarrow> bool" where
  "trimmed_of s r =
     (\<exists>pre post. s = pre @ r @ post \<and> list_all is_ws pre \<and> list_all is_ws post
        \<and> (r = [] \<or> (\<not> is_ws (hd r) \<and> \<not> is_ws (last r))))"

text \<open>
  What a run of a script reported: the script was within the size limit, the executor
  returned with nothing on the error stream, and the trimmed output parsed to \<open>parsed\<close>.
\<close>

definition script_reports :: "runtime \<Rightarrow> jsstring \<Rightarrow> jsval \<Rightarrow> jsval \<Rightarrow> bool" where
  "script_reports rt script params parsed =
     (length script \<le> maxScriptSize \<and>
      (case execAsync rt script params of
         ExecReturns stdout stderr \<Rightarrow> stderr = [] \<and> JSON_parse rt (trim stdout) = Inr parsed
       | ExecThrows code msg \<Rightarrow> False))"

text \<open>
  A run of a script succeeded: the script was within the size limit, the executor
  returned with nothing on the error stream, and the trimmed output parsed to a result
  whose \<open>success\<close> and \<open>data\<close> are both truthy. Everything else is an execution error:
  an oversized script, an executor that rejects (a time-out, a failing command), output
  on the error stream, output that does not parse, and a result that is no success with
  data. \<open>executor_calls\<close> are the calls of the executor for a script: none when the
  script is oversized, one otherwise.
\<close>

definition script_succeeds :: "runtime \<Rightarrow> jsstring \<Rightarrow> jsval \<Rightarrow> bool" where
  "script_succeeds rt script params =
     (length script \<le> maxScriptSize \<and>
      (case execAsync rt script params of
         ExecReturns stdout stderr \<Rightarrow>
           stderr = [] \<and>
           (case JSON_parse rt (trim stdout) of
              Inr parsed \<Rightarrow>
                truthy (get_prop parsed (js ''success'')) \<and> truthy (get_prop parsed (js ''data''))
            | Inl parseMessage \<Rightarrow> False)
       | ExecThrows code msg \<Rightarrow> False))"

definition executor_calls :: "jsstring \<Rightarrow> jsval \<Rightarrow> exec_calls" where
  "executor_calls script params =
     (if length script > maxScriptSize then [] else [(script, params)])"

text \<open>The response the templates of \<open>updateTodo\<close>, \<open>updateProject\<close> and \<open>showItem\<close>
  print when no item has the given id:
  \<open>{success: false, error: {type: 'NotFound', message: ..., code: -1}}\<close>.\<close>

definition is_not_found_response :: "jsval \<Rightarrow> bool" where
  "is_not_found_response parsed =
     (get_prop parsed (js ''success'') = JBool False
      \<and> get_prop (get_prop parsed (js ''error'')) (js ''type'') = JStr (js ''NotFound''))"

definition not_found_response :: "jsstring \<Rightarrow> jsval" where
  "not_found_response message =
     JObj [(js ''success'', JBool False),
           (js ''error'', JObj [(js ''type'', JStr (js ''NotFound'')),
                               (js ''message'', JStr message),
                               (js ''code'', JNum (- 1))])]"

text \<open>
  Runtimes to evaluate the functions at: in \<open>printing_runtime out v\<close> every script prints
  \<open>out\<close>, which \<open>JSON.parse\<close> reads as \<open>v\<close> (it rejects any other text); in
  \<open>throwing_runtime code message\<close> the executor rejects with that code and message.
  No number of magnitude \<open>10^21\<close> occurs where they are used.
\<close>

definition printing_runtime :: "jsstring \<Rightarrow> jsval \<Rightarrow> runtime" where
  "printing_runtime out v =
     \<lparr>execAsync = (\<lambda>script params. ExecReturns out []),
      JSON_parse = (\<lambda>text. if text = trim out then Inr v else Inl (js ''Unexpected token'')),
      Number_toString_large = (\<lambda>n. js ''1e+21'')\<rparr>"

definition throwing_runtime :: "jsval \<Rightarrow> jsstring \<Rightarrow> runtime" where
  "throwing_runtime code message =
     \<lparr>execAsync = (\<lambda>script params. ExecThrows code message),
      JSON_parse = (\<lambda>text. Inl (js ''Unexpected token'')),
      Number_toString_large = (\<lambda>n. js ''1e+21'')\<rparr>"

text \<open>A JSON text in quotes, and the outputs used below:
  \<open>{"success":true,"data":false}\<close>, \<open>{"success":true,"data":{"id":"abc"}}\<close> and
  \<open>{"success":false,"error":{"type":"NotFound","message":"Todo not found","code":-1}}\<close>.\<close>

definition quoted :: "string \<Rightarrow> jsstring" where
  "quoted s = [0x22] @ js s @ [0x22]"

definition success_false_data_text :: jsstring where
  "success_false_data_text =
     js ''{'' @ quoted ''success'' @ js '':true,'' @ quoted ''data'' @ js '':false}''"

definition created_text :: jsstring where
  "created_text =
     js ''{'' @ quoted ''success'' @ js '':true,'' @ quoted ''data'' @ js '':{''
     @ quoted ''id'' @ js '':'' @ quoted ''abc'' @ js ''}}''"

definition todo_not_found_text :: jsstring where
  "todo_not_found_text =
     js ''{'' @ quoted ''success'' @ js '':false,'' @ quoted ''error'' @ js '':{''
     @ quoted ''type'' @ js '':'' @ quoted ''NotFound'' @ js '',''
     @ quoted ''message'' @ js '':'' @ quoted ''Todo not found'' @ js '',''
     @ quoted ''code'' @ js '':-1}}''"

text \<open>
  The envelope of a soft failure: the response
  \<open>{content: [{type: "text", text: t}]}\<close> whose text \<open>t\<close> is the JSON
  \<open>{"success":false,"message":m,"error":code}\<close>, with the message \<open>m\<close> written as a JSON
  string.
\<close>

definition soft_failure_envelope :: "jsstring \<Rightarrow> string \<Rightarrow> jsval" where
  "soft_failure_envelope message code =
     JObj [(js ''content'',
            JArr [JObj [(js ''type'', JStr (js ''text'')),
                        (js ''text'',
                         JStr (js ''{'' @ quoted ''success'' @ js '':false,''
                               @ quoted ''message'' @ js '':'' @ JSON_quote message @ js '',''
                               @ quoted ''error'' @ js '':'' @ quoted code @ js ''}''))]])]"

section \<open>The matcher decides the language\<close>

lemma in_lang_Cons:
  "m \<in> pieces_lang ic (p # ps) \<longleftrightarrow>
     (\<exists>u v. m = u @ v \<and> u \<in> piece_lang ic p \<and> v \<in> pieces_lang ic ps)"
  by auto

lemma lang_Once:
  "m \<in> pieces_lang ic (Once a # ps) \<longleftrightarrow>
     (\<exists>c v. m = c # v \<and> atom_ok ic a c \<and> v \<in> pieces_lang ic ps)"
proof
  assume "m \<in> pieces_lang ic (Once a # ps)"
  then show "\<exists>c v. m = c # v \<and> atom_ok ic a c \<and> v \<in> pieces_lang ic ps"
    by (auto simp: in_lang_Cons)
next
  assume "\<exists>c v. m = c # v \<and> atom_ok ic a c \<and> v \<in> pieces_lang ic ps"
  then obtain c v where h: "m = c # v" "atom_ok ic a c" "v \<in> pieces_lang ic ps" by blast
  then show "m \<in> pieces_lang ic (Once a # ps)"
    unfolding in_lang_Cons by (intro exI[of _ "[c]"] exI[of _ v]) simp
qed

lemma lang_Plus:
  "m \<in> pieces_lang ic (Plus a # ps) \<longleftrightarrow>
     (\<exists>c v. m = c # v \<and> atom_ok ic a c
        \<and> (v \<in> pieces_lang ic (Plus a # ps) \<or> v \<in> pieces_lang ic ps))"
proof
  assume "m \<in> pieces_lang ic (Plus a # ps)"
  then obtain u v where h: "m = u @ v" "u \<noteq> []" "list_all (atom_ok ic a) u"
      "v \<in> pieces_lang ic ps"
    by (auto simp: in_lang_Cons)
  then obtain c u' where u: "u = c # u'" by (cases u) auto
  show "\<exists>c v. m = c # v \<and> atom_ok ic a c
        \<and> (v \<in> pieces_lang ic (Plus a # ps) \<or> v \<in> pieces_lang ic ps)"
  proof (cases "u' = []")
    case True
    with h u show ?thesis by auto
  next
    case False
    with h u have "u' @ v \<in> pieces_lang ic (Plus a # ps)"
      unfolding in_lang_Cons by (intro exI[of _ u'] exI[of _ v]) simp
    with h u show ?thesis by auto
  qed
next
  assume "\<exists>c v. m = c # v \<and> atom_ok ic a c
        \<and> (v \<in> pieces_lang ic (Plus a # ps) \<or> v \<in> pieces_lang ic ps)"
  then obtain c w where h: "m = c # w" "atom_ok ic a c"
      "w \<in> pieces_lang ic (Plus a # ps) \<or> w \<in> pieces_lang ic ps"
    by blast
  from h(3) show "m \<in> pieces_lang ic (Plus a # ps)"
  proof
    assume "w \<in> pieces_lang ic (Plus a # ps)"
    then obtain u v where w: "w = u @ v" "u \<noteq> []" "list_all (atom_ok ic a) u"
        "v \<in> pieces_lang ic ps"
      by (auto simp: in_lang_Cons)
    with h show ?thesis
      unfolding in_lang_Cons by (intro exI[of _ "c # u"] exI[of _ v]) simp
  next
    assume "w \<in> pieces_lang ic ps"
    with h show ?thesis
      unfolding in_lang_Cons by (intro exI[of _ "[c]"] exI[of _ w]) simp
  qed
qed

lemma lang_Times_0: "pieces_lang ic (Times 0 a # ps) = pieces_lang ic ps"
  by auto

lemma lang_Times_Suc:
  "m \<in> pieces_lang ic (Times (Suc n) a # ps) \<longleftrightarrow>
     (\<exists>c v. m = c # v \<and> atom_ok ic a c \<and> v \<in> pieces_lang ic (Times n a # ps))"
proof
  assume "m \<in> pieces_lang ic (Times (Suc n) a # ps)"
  then obtain u v where h: "m = u @ v" "length u = Suc n" "list_all (atom_ok ic a) u"
      "v \<in> pieces_lang ic ps"
    by (auto simp: in_lang_Cons)
  then obtain c u' where u: "u = c # u'" by (cases u) auto
  with h have "u' @ v \<in> pieces_lang ic (Times n a # ps)"
    unfolding in_lang_Cons by (intro exI[of _ u'] exI[of _ v]) simp
  with h u show "\<exists>c v. m = c # v \<and> atom_ok ic a c \<and> v \<in> pieces_lang ic (Times n a # ps)"
    by auto
next
  assume "\<exists>c v. m = c # v \<and> atom_ok ic a c \<and> v \<in> pieces_lang ic (Times n a # ps)"
  then obtain c w where h: "m = c # w" "atom_ok ic a c" "w \<in> pieces_lang ic (Times n a # ps)"
    by blast
  then obtain u v where w: "w = u @ v" "length u = n" "list_all (atom_ok ic a) u"
      "v \<in> pieces_lang ic ps"
    by (auto simp: in_lang_Cons)
  with h show "m \<in> pieces_lang ic (Times (Suc n) a # ps)"
    unfolding in_lang_Cons by (intro exI[of _ "c # u"] exI[of _ v]) simp
qed

lemma ex_split_Cons:
  "(\<exists>m rest. c # cs = m @ rest \<and> (\<exists>c' v. m = c' # v \<and> P c' v) \<and> Q rest)
     \<longleftrightarrow> (\<exists>v rest. cs = v @ rest \<and> P c v \<and> Q rest)"
proof
  assume "\<exists>m rest. c # cs = m @ rest \<and> (\<exists>c' v. m = c' # v \<and> P c' v) \<and> Q rest"
  then obtain m rest c' v where h: "c # cs = m @ rest" "m = c' # v" "P c' v" "Q rest"
    by blast
  then have "c' = c" "cs = v @ rest" by simp_all
  with h show "\<exists>v rest. cs = v @ rest \<and> P c v \<and> Q rest" by blast
next
  assume "\<exists>v rest. cs = v @ rest \<and> P c v \<and> Q rest"
  then obtain v rest where h: "cs = v @ rest" "P c v" "Q rest" by blast
  then have "c # cs = (c # v) @ rest" by simp
  with h show "\<exists>m rest. c # cs = m @ rest \<and> (\<exists>c' v. m = c' # v \<and> P c' v) \<and> Q rest"
    by blast
qed

lemma ex_split_Nil:
  "(\<exists>m rest. [] = m @ rest \<and> (\<exists>c' v. m = c' # v \<and> P c' v) \<and> Q rest) \<longleftrightarrow> False"
  by auto

lemma mp_Nil: "matches_prefix ic [] e s = (if e then s = [] else True)"
  by (auto simp: matches_prefix_def)

lemma mp_Once_Nil: "matches_prefix ic (Once a # ps) e [] = False"
  unfolding matches_prefix_def lang_Once by (rule ex_split_Nil)

lemma mp_Once_Cons: "matches_prefix ic (Once a # ps) e (c # cs) = (atom_ok ic a c \<and> matches_prefix ic ps e cs)"
  unfolding matches_prefix_def lang_Once ex_split_Cons by blast

lemma mp_Plus_Nil: "matches_prefix ic (Plus a # ps) e [] = False"
  unfolding matches_prefix_def by (subst lang_Plus) (rule ex_split_Nil)

lemma mp_Plus_Cons:
  "matches_prefix ic (Plus a # ps) e (c # cs) =
     (atom_ok ic a c \<and> (matches_prefix ic (Plus a # ps) e cs \<or> matches_prefix ic ps e cs))"
proof -
  have "matches_prefix ic (Plus a # ps) e (c # cs) \<longleftrightarrow>
      (\<exists>m rest. c # cs = m @ rest
         \<and> (\<exists>c' v. m = c' # v \<and> (atom_ok ic a c'
              \<and> (v \<in> pieces_lang ic (Plus a # ps) \<or> v \<in> pieces_lang ic ps)))
         \<and> (e \<longrightarrow> rest = []))"
    unfolding matches_prefix_def by (subst lang_Plus) (rule refl)
  also have "\<dots> \<longleftrightarrow> (\<exists>v rest. cs = v @ rest
         \<and> (atom_ok ic a c \<and> (v \<in> pieces_lang ic (Plus a # ps) \<or> v \<in> pieces_lang ic ps))
         \<and> (e \<longrightarrow> rest = []))"
    by (rule ex_split_Cons)
  also have "\<dots> \<longleftrightarrow> (atom_ok ic a c \<and> (matches_prefix ic (Plus a # ps) e cs \<or> matches_prefix ic ps e cs))"
    unfolding matches_prefix_def by blast
  finally show ?thesis .
qed

lemma mp_Times_0: "matches_prefix ic (Times 0 a # ps) e s = matches_prefix ic ps e s"
  unfolding matches_prefix_def lang_Times_0 ..

lemma mp_Times_Suc_Nil: "matches_prefix ic (Times (Suc n) a # ps) e [] = False"
  unfolding matches_prefix_def lang_Times_Suc by (rule ex_split_Nil)

lemma mp_Times_Suc_Cons:
  "matches_prefix ic (Times (Suc n) a # ps) e (c # cs) = (atom_ok ic a c \<and> matches_prefix ic (Times n a # ps) e cs)"
  unfolding matches_prefix_def lang_Times_Suc ex_split_Cons by blast

lemma match_here_matches_prefix: "match_here ic ps e s = matches_prefix ic ps e s"
  by (induction ic ps e s rule: match_here.induct)
     (simp_all only: match_here.simps mp_Nil mp_Once_Nil mp_Once_Cons mp_Plus_Nil mp_Plus_Cons
        mp_Times_0 mp_Times_Suc_Nil mp_Times_Suc_Cons)

lemma lang_iff_match: "m \<in> pieces_lang ic ps \<longleftrightarrow> match_here ic ps True m"
  unfolding match_here_matches_prefix matches_prefix_def by auto

lemma search_iff:
  "search ic ps s \<longleftrightarrow> (\<exists>pre m post. s = pre @ m @ post \<and> m \<in> pieces_lang ic ps)"
proof (induction s)
  case Nil
  show ?case by (auto simp: match_here_matches_prefix matches_prefix_def)
next
  case (Cons c cs)
  show ?case
  proof
    assume "search ic ps (c # cs)"
    then consider (here) "match_here ic ps False (c # cs)" | (later) "search ic ps cs" by auto
    then show "\<exists>pre m post. c # cs = pre @ m @ post \<and> m \<in> pieces_lang ic ps"
    proof cases
      case here
      then obtain m rest where "c # cs = m @ rest" "m \<in> pieces_lang ic ps"
        unfolding match_here_matches_prefix matches_prefix_def by blast
      then have "c # cs = [] @ m @ rest \<and> m \<in> pieces_lang ic ps" by simp
      then show ?thesis by blast
    next
      case later
      with Cons obtain pre m post where "cs = pre @ m @ post" "m \<in> pieces_lang ic ps" by blast
      then have "c # cs = (c # pre) @ m @ post \<and> m \<in> pieces_lang ic ps" by simp
      then show ?thesis by blast
    qed
  next
    assume "\<exists>pre m post. c # cs = pre @ m @ post \<and> m \<in> pieces_lang ic ps"
    then obtain pre m post where h: "c # cs = pre @ m @ post" "m \<in> pieces_lang ic ps" by blast
    show "search ic ps (c # cs)"
    proof (cases pre)
      case Nil
      with h have "matches_prefix ic ps False (c # cs)"
        unfolding matches_prefix_def by auto
      then show ?thesis by (simp add: match_here_matches_prefix)
    next
      case (Cons p pre')
      with h have "cs = pre' @ m @ post" by simp
      with h Cons.IH have "search ic ps cs" by blast
      then show ?thesis by simp
    qed
  qed
qed

lemma regex_test_unanchored:
  "\<not> anchored r \<Longrightarrow>
     regex_test r s \<longleftrightarrow> (\<exists>pre m post. s = pre @ m @ post \<and> m \<in> regex_lang r)"
  by (simp add: regex_test_def regex_lang_def search_iff)

lemma regex_test_anchored: "anchored r \<Longrightarrow> regex_test r s \<longleftrightarrow> s \<in> regex_lang r"
  by (simp add: regex_test_def regex_lang_def lang_iff_match)

lemma dangerousPatterns_unanchored: "p \<in> set dangerousPatterns \<Longrightarrow> \<not> anchored p"
  by (auto simp: dangerousPatterns_def)

section \<open>Dangerous patterns are always rejected\<close>

text \<open>
  Claim C7. Take any pattern of the deny-list of \<open>validateStringInput\<close> and any string
  \<open>m\<close> it denotes (case-insensitively, as the flag \<open>i\<close> has it). Whatever text \<open>pre\<close>
  stands before \<open>m\<close> and whatever text \<open>post\<close> after it, \<open>validateStringInput\<close> throws
  an \<open>McpError\<close> with the code \<open>InvalidParams\<close> on \<open>pre @ m @ post\<close>, for every field
  name and every length limit: it never returns such an input.
\<close>

theorem validateString_rejects_dangerous:
  assumes "pattern \<in> set dangerousPatterns" and "m \<in> regex_lang pattern"
  shows "\<exists>msg. validateStringInput (JStr (pre @ m @ post)) fieldName maxLength
            = Inl (McpError InvalidParams msg)"
proof -
  from assms have "regex_test pattern (pre @ m @ post)"
    using regex_test_unanchored [OF dangerousPatterns_unanchored] by blast
  with assms(1) have "list_ex (\<lambda>p. regex_test p (pre @ m @ post)) dangerousPatterns"
    unfolding list_ex_iff by blast
  then show ?thesis
    unfolding validateStringInput_def by simp
qed

text \<open>The theorem at \<open>Buy milk; Tell  APPlication Finder\<close>, a title that holds a match of
  \<open>/tell\s+application/i\<close> between other text.\<close>

theorem validateString_rejects_dangerous_witness:
  "\<lparr>pieces = lits ''tell'' @ [Plus Space] @ lits ''application'',
        anchored = False, ignoreCase = True\<rparr> \<in> set dangerousPatterns
   \<and> js ''Tell  APPlication'' \<in> regex_lang \<lparr>pieces = lits ''tell'' @ [Plus Space] @ lits ''application'',
        anchored = False, ignoreCase = True\<rparr>
   \<and> (\<exists>msg. validateStringInput (JStr (js ''Buy milk; '' @ js ''Tell  APPlication'' @ js '' Finder''))
              (js ''title'') maxStringLength = Inl (McpError InvalidParams msg))"
proof -
  have 1: "\<lparr>pieces = lits ''tell'' @ [Plus Space] @ lits ''application'',
        anchored = False, ignoreCase = True\<rparr> \<in> set dangerousPatterns"
    by (simp add: dangerousPatterns_def)
  have 2: "js ''Tell  APPlication'' \<in> regex_lang \<lparr>pieces = lits ''tell'' @ [Plus Space] @ lits ''application'',
        anchored = False, ignoreCase = True\<rparr>"
    unfolding regex_lang_def lang_iff_match by code_simp
  from 1 2 validateString_rejects_dangerous [OF 1 2] show ?thesis by blast
qed

lemma is_ws_canonicalize: "is_ws c \<Longrightarrow> canonicalize c = c"
  by (auto simp: is_ws_def whitespace_units_def canonicalize_def is_lower_def)

lemma search_no_first:
  assumes "list_all (\<lambda>c. \<not> atom_ok ic a c) s"
  shows "\<not> search ic (Once a # ps) s"
  using assms by (induction s) auto

lemma ws_not_atom:
  assumes "is_ws c" and "\<not> is_ws (canonicalize p)"
  shows "\<not> atom_ok True (Chr p) c"
  using assms by (auto simp: is_ws_canonicalize)

lemma search_ws:
  assumes "list_all is_ws s" and "\<not> is_ws (canonicalize p)"
  shows "\<not> search True (Once (Chr p) # ps) s"
proof (rule search_no_first)
  show "list_all (\<lambda>c. \<not> atom_ok True (Chr p) c) s"
    unfolding list_all_iff
  proof
    fix c assume "c \<in> set s"
    with assms(1) have "is_ws c" by (simp add: list_all_iff)
    then show "\<not> atom_ok True (Chr p) c" using assms(2) by (rule ws_not_atom)
  qed
qed

lemma whitespace_not_dangerous:
  assumes "list_all is_ws s"
  shows "\<not> list_ex (\<lambda>pattern. regex_test pattern s) dangerousPatterns"
proof -
  have l: "\<not> is_ws (canonicalize 0x74)" "\<not> is_ws (canonicalize 0x65)"
      "\<not> is_ws (canonicalize 0x73)" "\<not> is_ws (canonicalize 0x64)" "\<not> is_ws (canonicalize 0x6F)"
    by (simp_all add: is_ws_def whitespace_units_def canonicalize_def is_lower_def)
  show ?thesis
    by (simp add: dangerousPatterns_def regex_test_def lits_def search_ws [OF assms] l)
qed

lemma trim_whitespace: "list_all is_ws s \<Longrightarrow> trim s = []"
proof -
  assume "list_all is_ws s"
  then have d: "dropWhile is_ws s = []" by (induction s) auto
  show ?thesis unfolding trim_def d by simp
qed

lemma dateRegex_length: "s \<in> regex_lang dateRegex \<Longrightarrow> length s = 10"
  by (auto simp: regex_lang_def dateRegex_def)

lemma days_in_month_le: "days_in_month y m \<le> 31"
  by (simp add: days_in_month_def)

lemma real_date_not_NaN:
  assumes "s \<in> regex_lang dateRegex" and "real_calendar_date s"
  shows "\<not> Date_isNaN s"
proof -
  from assms(2) have "date_day s \<le> days_in_month (date_year s) (date_month s)"
    by (simp add: real_calendar_date_def)
  then have "date_day s \<le> 31" using days_in_month_le order_trans by blast
  with assms show ?thesis
    by (simp add: Date_isNaN_def real_calendar_date_def dateRegex_length)
qed

lemma validateDate_real:
  assumes "s \<in> regex_lang dateRegex" and "real_calendar_date s"
  shows "validateDateInput (JStr s) fieldName = Inr s"
  using assms real_date_not_NaN [OF assms]
  by (simp add: validateDateInput_def regex_test_anchored dateRegex_def)

lemma validateDate_not_string:
  "(\<forall>s. input \<noteq> JStr s) \<Longrightarrow>
     validateDateInput input fieldName
       = Inl (McpError InvalidParams (fieldName @ js '' must be a string in YYYY-MM-DD format''))"
  by (cases input) (simp_all add: validateDateInput_def)

lemma validateDate_no_match:
  "s \<notin> regex_lang dateRegex \<Longrightarrow>
     validateDateInput (JStr s) fieldName
       = Inl (McpError InvalidParams (fieldName @ js '' must be in YYYY-MM-DD format''))"
  by (simp add: validateDateInput_def regex_test_anchored dateRegex_def)

section \<open>Dates that are not on the calendar\<close>

text \<open>
  Claim C6. \<open>validateDateInput\<close> returns every string of the form \<open>YYYY-MM-DD\<close> that is a
  real calendar date unchanged (\<open>validateDate_real\<close>), and throws \<open>InvalidParams\<close> for an
  input that is not a string (\<open>validateDate_not_string\<close>) or not of that form
  (\<open>validateDate_no_match\<close>). It does not reject every string of that form that is no
  calendar date: its test is \<open>isNaN(new Date(input).getTime())\<close>, and the engine carries
  a day 29, 30 or 31 that the month does not have into the next month. The theorem
  evaluates the claim's own example: \<open>2024-02-30\<close> has the form, is no calendar date,
  and is returned unchanged.
\<close>

theorem validateDate_accepts_february_30:
  "js ''2024-02-30'' \<in> regex_lang dateRegex
   \<and> \<not> real_calendar_date (js ''2024-02-30'')
   \<and> validateDateInput (JStr (js ''2024-02-30'')) (js ''when'') = Inr (js ''2024-02-30'')"
proof -
  have "js ''2024-02-30'' \<in> regex_lang dateRegex"
    unfolding regex_lang_def lang_iff_match by code_simp
  moreover have "\<not> real_calendar_date (js ''2024-02-30'')" by code_simp
  moreover have "validateDateInput (JStr (js ''2024-02-30'')) (js ''when'') = Inr (js ''2024-02-30'')"
    by code_simp
  ultimately show ?thesis by blast
qed

section \<open>Trimming and validated strings\<close>

lemma rev_dropWhile_split:
  "xs = rev (dropWhile P (rev xs)) @ rev (takeWhile P (rev xs))"
  by (metis rev_append rev_rev_ident takeWhile_dropWhile_id)

lemma dropWhile_split_trim:
  "dropWhile is_ws s = trim s @ rev (takeWhile is_ws (rev (dropWhile is_ws s)))"
  unfolding trim_def by (rule rev_dropWhile_split)

lemma trim_substring: "\<exists>pre post. s = pre @ trim s @ post"
proof -
  have "s = takeWhile is_ws s @ dropWhile is_ws s" by simp
  then have "s = takeWhile is_ws s @ trim s @ rev (takeWhile is_ws (rev (dropWhile is_ws s)))"
    using dropWhile_split_trim [of s] by simp
  then show ?thesis by blast
qed

lemma length_trim: "length (trim s) \<le> length s"
proof -
  obtain pre post where "s = pre @ trim s @ post" using trim_substring by blast
  then have "length s = length pre + length (trim s) + length post"
    by (metis length_append add.assoc)
  then show ?thesis by simp
qed

lemma dropWhile_trim: "dropWhile is_ws (trim s) = trim s"
proof (cases "trim s")
  case Nil
  then show ?thesis by simp
next
  case (Cons c cs)
  obtain t where t: "dropWhile is_ws s = c # t"
    using dropWhile_split_trim [of s] Cons by (metis append_Cons)
  then have "\<not> is_ws c" by (metis dropWhile_eq_Cons_conv)
  with Cons show ?thesis by simp
qed

lemma trim_trim: "trim (trim s) = trim s"
proof -
  have "rev (trim s) = dropWhile is_ws (rev (dropWhile is_ws s))"
    by (simp add: trim_def)
  then have "dropWhile is_ws (rev (trim s)) = rev (trim s)"
    by simp
  then have "rev (dropWhile is_ws (rev (dropWhile is_ws (trim s)))) = trim s"
    by (simp add: dropWhile_trim)
  then show ?thesis by (subst trim_def)
qed

lemma regex_test_substring:
  assumes "\<not> anchored r" and "regex_test r m"
  shows "regex_test r (pre @ m @ post)"
proof -
  from assms obtain a w b where "m = a @ w @ b" "w \<in> regex_lang r"
    using regex_test_unanchored by blast
  then have "pre @ m @ post = (pre @ a) @ w @ (b @ post) \<and> w \<in> regex_lang r" by simp
  then show ?thesis using regex_test_unanchored [OF assms(1)] by blast
qed

lemma trim_not_dangerous:
  assumes "\<not> list_ex (\<lambda>pattern. regex_test pattern s) dangerousPatterns"
  shows "\<not> list_ex (\<lambda>pattern. regex_test pattern (trim s)) dangerousPatterns"
proof
  assume "list_ex (\<lambda>pattern. regex_test pattern (trim s)) dangerousPatterns"
  then obtain p where p: "p \<in> set dangerousPatterns" "regex_test p (trim s)"
    unfolding list_ex_iff by blast
  obtain pre post where s: "s = pre @ trim s @ post" using trim_substring by blast
  from p have "regex_test p (pre @ trim s @ post)"
    using regex_test_substring dangerousPatterns_unanchored by blast
  with s have "regex_test p s" by simp
  with p(1) assms show False unfolding list_ex_iff by blast
qed

lemma validateString_Inr:
  assumes "validateStringInput v fieldName maxLength = Inr r"
  shows "\<exists>s. v = JStr s \<and> s \<noteq> [] \<and> r = trim s
           \<and> (\<forall>f. validateStringInput v f maxLength = Inr r)"
  using assms by (cases v) (auto simp: validateStringInput_def split: if_splits)

lemma validateString_trimmed:
  assumes "validateStringInput (JStr s) fieldName maxLength = Inr r" and "r \<noteq> []"
  shows "validateStringInput (JStr r) f maxLength = Inr r"
proof -
  from assms(1) have h: "length s \<le> maxLength" "r = trim s"
      "\<not> list_ex (\<lambda>pattern. regex_test pattern s) dangerousPatterns"
    by (auto simp: validateStringInput_def split: if_splits)
  from h(1) have "length (trim s) \<le> maxLength" using length_trim le_trans by blast
  with h assms(2) trim_not_dangerous [OF h(3)] show ?thesis
    by (simp add: validateStringInput_def trim_trim)
qed

lemma validateDate_Inr:
  assumes "validateDateInput v fieldName = Inr r"
  shows "v = JStr r \<and> r \<noteq> [] \<and> (\<forall>f. validateDateInput v f = Inr r)"
proof (cases v)
  case (JStr s)
  with assms have "regex_test dateRegex s" "r = s" "\<not> Date_isNaN s"
    by (auto simp: validateDateInput_def split: if_splits)
  moreover from this have "s \<noteq> []" by (auto simp: Date_isNaN_def)
  ultimately show ?thesis using JStr by (simp add: validateDateInput_def)
qed (use assms in \<open>simp_all add: validateDateInput_def\<close>)

section \<open>The legacy alias of the schedule date\<close>

text \<open>
  Claim C4. Let \<open>X\<close> be a title and \<open>D\<close>, \<open>E\<close> dates the validators accept. Mapping
  \<open>{name: X, due_date: D}\<close> and mapping \<open>{title: X, when: D}\<close> both put \<open>D\<close> under the key
  \<open>activation_date\<close> of the result (and neither result has a \<open>due_date\<close> key); when
  \<open>when\<close> and the legacy \<open>due_date\<close> are both given, \<open>when\<close> is the one stored under
  \<open>activation_date\<close>.
\<close>

theorem legacy_alias_same_key:
  assumes X: "validateStringInput (JStr X) (js ''title'') maxStringLength = Inr X'"
      and D: "validateDateInput (JStr D) (js ''when'') = Inr D"
      and E: "validateDateInput (JStr E) (js ''when'') = Inr E"
  shows "validateAndMapParameters [(js ''name'', JStr X), (js ''due_date'', JStr D)] []
           = Inr [(js ''name'', JStr X'), (js ''activation_date'', JStr D)]
       \<and> validateAndMapParameters [(js ''title'', JStr X), (js ''when'', JStr D)] []
           = Inr [(js ''name'', JStr X'), (js ''title'', JStr X'), (js ''activation_date'', JStr D)]
       \<and> validateAndMapParameters
            [(js ''title'', JStr X), (js ''when'', JStr D), (js ''due_date'', JStr E)] []
           = Inr [(js ''name'', JStr X'), (js ''title'', JStr X'), (js ''activation_date'', JStr D)]"
proof -
  from validateString_Inr [OF X] have x: "X \<noteq> []"
      "\<And>f. validateStringInput (JStr X) f maxStringLength = Inr X'" by auto
  from validateDate_Inr [OF D] have d: "D \<noteq> []" "\<And>f. validateDateInput (JStr D) f = Inr D" by auto
  from validateDate_Inr [OF E] have e: "E \<noteq> []" "\<And>f. validateDateInput (JStr E) f = Inr E" by auto
  show ?thesis
    by (simp add: validateAndMapParameters_def mapped_fields_def obj_get_def js_def
        string_field_def date_field_def array_field_def spread_def x d e)
qed

text \<open>The theorem at the title \<open>X\<close> and the dates \<open>2024-01-01\<close> and \<open>2024-06-30\<close>.\<close>

theorem legacy_alias_same_key_witness:
  "validateStringInput (JStr (js ''X'')) (js ''title'') maxStringLength = Inr (js ''X'')
   \<and> validateDateInput (JStr (js ''2024-01-01'')) (js ''when'') = Inr (js ''2024-01-01'')
   \<and> validateDateInput (JStr (js ''2024-06-30'')) (js ''when'') = Inr (js ''2024-06-30'')
   \<and> validateAndMapParameters [(js ''name'', JStr (js ''X'')), (js ''due_date'', JStr (js ''2024-01-01''))] []
        = Inr [(js ''name'', JStr (js ''X'')), (js ''activation_date'', JStr (js ''2024-01-01''))]
   \<and> validateAndMapParameters [(js ''title'', JStr (js ''X'')), (js ''when'', JStr (js ''2024-01-01''))] []
        = Inr [(js ''name'', JStr (js ''X'')), (js ''title'', JStr (js ''X'')),
               (js ''activation_date'', JStr (js ''2024-01-01''))]
   \<and> validateAndMapParameters
         [(js ''title'', JStr (js ''X'')), (js ''when'', JStr (js ''2024-01-01'')),
          (js ''due_date'', JStr (js ''2024-06-30''))] []
        = Inr [(js ''name'', JStr (js ''X'')), (js ''title'', JStr (js ''X'')),
               (js ''activation_date'', JStr (js ''2024-01-01''))]"
proof -
  have 1: "validateStringInput (JStr (js ''X'')) (js ''title'') maxStringLength = Inr (js ''X'')"
    by code_simp
  have 2: "validateDateInput (JStr (js ''2024-01-01'')) (js ''when'') = Inr (js ''2024-01-01'')"
    by code_simp
  have 3: "validateDateInput (JStr (js ''2024-06-30'')) (js ''when'') = Inr (js ''2024-06-30'')"
    by code_simp
  from 1 2 3 legacy_alias_same_key [OF 1 2 3] show ?thesis by blast
qed

section \<open>Mapping a mapped object again\<close>

text \<open>
  Claim C1 says that mapping the result of mapping \<open>{title, when, deadline}\<close> gives that
  result again. It does not: the result has the internal keys \<open>activation_date\<close> and
  \<open>due_date\<close>, and a second pass reads \<open>due_date\<close> as the legacy alias of \<open>when\<close>. At
  \<open>{title: "X", when: "2024-01-01", deadline: "2024-01-02"}\<close> the second result has the
  deadline as its \<open>activation_date\<close> and no \<open>due_date\<close>.
\<close>

theorem remap_counterexample:
  "validateAndMapParameters
      [(js ''title'', JStr (js ''X'')), (js ''when'', JStr (js ''2024-01-01'')),
       (js ''deadline'', JStr (js ''2024-01-02''))] []
     = Inr [(js ''name'', JStr (js ''X'')), (js ''title'', JStr (js ''X'')),
            (js ''activation_date'', JStr (js ''2024-01-01'')),
            (js ''due_date'', JStr (js ''2024-01-02''))]
   \<and> validateAndMapParameters
        [(js ''name'', JStr (js ''X'')), (js ''title'', JStr (js ''X'')),
         (js ''activation_date'', JStr (js ''2024-01-01'')),
         (js ''due_date'', JStr (js ''2024-01-02''))] []
     = Inr [(js ''name'', JStr (js ''X'')), (js ''title'', JStr (js ''X'')),
            (js ''activation_date'', JStr (js ''2024-01-02''))]
   \<and> validateAndMapParameters
        [(js ''name'', JStr (js ''X'')), (js ''title'', JStr (js ''X'')),
         (js ''activation_date'', JStr (js ''2024-01-01'')),
         (js ''due_date'', JStr (js ''2024-01-02''))] []
     \<noteq> validateAndMapParameters
        [(js ''title'', JStr (js ''X'')), (js ''when'', JStr (js ''2024-01-01'')),
         (js ''deadline'', JStr (js ''2024-01-02''))] []"
  by code_simp

text \<open>
  Claim C1, as amended. For a title \<open>X\<close> that \<open>validateStringInput\<close> accepts with a
  non-empty trimmed text \<open>X'\<close>, and dates \<open>W\<close> and \<open>D\<close> that \<open>validateDateInput\<close> accepts:
  mapping \<open>{title: X, when: W, deadline: D}\<close> gives
  \<open>{name: X', title: X', activation_date: W, due_date: D}\<close>, and mapping that object again
  keeps \<open>name\<close> and \<open>title\<close> but gives \<open>{name: X', title: X', activation_date: D}\<close>: the
  deadline becomes the schedule date and the key \<open>due_date\<close> is gone.
\<close>

theorem remap_moves_deadline:
  assumes X: "validateStringInput (JStr X) (js ''title'') maxStringLength = Inr X'"
      and X': "X' \<noteq> []"
      and W: "validateDateInput (JStr W) (js ''when'') = Inr W"
      and D: "validateDateInput (JStr D) (js ''deadline'') = Inr D"
  shows "validateAndMapParameters
            [(js ''title'', JStr X), (js ''when'', JStr W), (js ''deadline'', JStr D)] []
           = Inr [(js ''name'', JStr X'), (js ''title'', JStr X'),
                  (js ''activation_date'', JStr W), (js ''due_date'', JStr D)]
       \<and> validateAndMapParameters
            [(js ''name'', JStr X'), (js ''title'', JStr X'),
             (js ''activation_date'', JStr W), (js ''due_date'', JStr D)] []
           = Inr [(js ''name'', JStr X'), (js ''title'', JStr X'),
                  (js ''activation_date'', JStr D)]"
proof -
  from validateString_Inr [OF X] have x: "X \<noteq> []"
      "\<And>f. validateStringInput (JStr X) f maxStringLength = Inr X'" by auto
  have x': "\<And>f. validateStringInput (JStr X') f maxStringLength = Inr X'"
    using validateString_trimmed [OF X X'] .
  from validateDate_Inr [OF W] have w: "W \<noteq> []" "\<And>f. validateDateInput (JStr W) f = Inr W" by auto
  from validateDate_Inr [OF D] have d: "D \<noteq> []" "\<And>f. validateDateInput (JStr D) f = Inr D" by auto
  show ?thesis
    by (simp add: validateAndMapParameters_def mapped_fields_def obj_get_def js_def
        string_field_def date_field_def array_field_def spread_def x x' X' w d)
qed

text \<open>The theorem at the title \<open>" Buy milk "\<close>, scheduled on \<open>2025-01-10\<close> and due on
  \<open>2025-01-31\<close>.\<close>

theorem remap_moves_deadline_witness:
  "validateStringInput (JStr (js '' Buy milk '')) (js ''title'') maxStringLength = Inr (js ''Buy milk'')
   \<and> js ''Buy milk'' \<noteq> []
   \<and> validateDateInput (JStr (js ''2025-01-10'')) (js ''when'') = Inr (js ''2025-01-10'')
   \<and> validateDateInput (JStr (js ''2025-01-31'')) (js ''deadline'') = Inr (js ''2025-01-31'')
   \<and> validateAndMapParameters
         [(js ''title'', JStr (js '' Buy milk '')), (js ''when'', JStr (js ''2025-01-10'')),
          (js ''deadline'', JStr (js ''2025-01-31''))] []
        = Inr [(js ''name'', JStr (js ''Buy milk'')), (js ''title'', JStr (js ''Buy milk'')),
               (js ''activation_date'', JStr (js ''2025-01-10'')),
               (js ''due_date'', JStr (js ''2025-01-31''))]
   \<and> validateAndMapParameters
         [(js ''name'', JStr (js ''Buy milk'')), (js ''title'', JStr (js ''Buy milk'')),
          (js ''activation_date'', JStr (js ''2025-01-10'')),
          (js ''due_date'', JStr (js ''2025-01-31''))] []
        = Inr [(js ''name'', JStr (js ''Buy milk'')), (js ''title'', JStr (js ''Buy milk'')),
               (js ''activation_date'', JStr (js ''2025-01-31''))]"
proof -
  have 1: "validateStringInput (JStr (js '' Buy milk '')) (js ''title'') maxStringLength
             = Inr (js ''Buy milk'')"
    by code_simp
  have 2: "js ''Buy milk'' \<noteq> []" by (simp add: js_def)
  have 3: "validateDateInput (JStr (js ''2025-01-10'')) (js ''when'') = Inr (js ''2025-01-10'')"
    by code_simp
  have 4: "validateDateInput (JStr (js ''2025-01-31'')) (js ''deadline'') = Inr (js ''2025-01-31'')"
    by code_simp
  from 1 2 3 4 remap_moves_deadline [OF 1 2 3 4] show ?thesis by blast
qed

section \<open>Whitespace-only strings\<close>

lemma trim_trimmed_of: "trimmed_of s (trim s)"
proof -
  let ?y = "dropWhile is_ws s"
  let ?pre = "takeWhile is_ws s"
  let ?post = "rev (takeWhile is_ws (rev ?y))"
  have 1: "s = ?pre @ trim s @ ?post"
    using dropWhile_split_trim [of s] by (metis takeWhile_dropWhile_id)
  have 2: "list_all is_ws ?pre" "list_all is_ws ?post"
    by (auto simp: list_all_iff dest: set_takeWhileD)
  have 3: "trim s = [] \<or> (\<not> is_ws (hd (trim s)) \<and> \<not> is_ws (last (trim s)))"
  proof (cases "trim s = []")
    case True
    then show ?thesis by simp
  next
    case False
    have "dropWhile is_ws (trim s) = trim s" by (rule dropWhile_trim)
    with False have h: "\<not> is_ws (hd (trim s))" by (metis hd_dropWhile)
    have r: "rev (trim s) = dropWhile is_ws (rev ?y)" by (simp add: trim_def)
    with False have "dropWhile is_ws (rev ?y) \<noteq> []" by (metis rev_is_Nil_conv)
    then have "\<not> is_ws (hd (dropWhile is_ws (rev ?y)))" by (rule hd_dropWhile)
    then have "\<not> is_ws (hd (rev (trim s)))" unfolding r .
    with False have "\<not> is_ws (last (trim s))" by (simp add: hd_rev)
    with h show ?thesis by simp
  qed
  from 1 2 3 show ?thesis unfolding trimmed_of_def by blast
qed

text \<open>
  Claim C10 says that \<open>validateStringInput\<close> accepts every input made of white space
  only and returns the empty string for it. The length limit is tested on the input as
  given, so a run of white space longer than the limit is rejected: 2001 spaces under
  the default limit of 2000.
\<close>

theorem whitespace_too_long_counterexample:
  "list_all is_ws (replicate 2001 0x20)
   \<and> validateStringInput (JStr (replicate 2001 0x20)) (js ''title'') maxStringLength
       = Inl (McpError InvalidParams (js ''title cannot exceed 2000 characters''))"
proof -
  define s where "s = replicate 2001 (0x20 :: codeunit)"
  have len: "length s = 2001" unfolding s_def by (rule length_replicate)
  have ws: "list_all is_ws s"
    unfolding s_def list_all_iff by (simp add: is_ws_def whitespace_units_def)
  have ne: "s \<noteq> []" using len by auto
  have m: "js ''title'' @ js '' cannot exceed '' @ nat_to_string maxStringLength @ js '' characters''
       = js ''title cannot exceed 2000 characters''"
    by (simp add: js_def maxStringLength_def nat_to_string.simps)
  have "validateStringInput (JStr s) (js ''title'') maxStringLength
       = Inl (McpError InvalidParams (js ''title cannot exceed 2000 characters''))"
    unfolding validateStringInput_def using ne len m by (simp add: maxStringLength_def)
  with ws show ?thesis unfolding s_def by (rule conjI)
qed

text \<open>
  Claim C10, as amended. \<open>validateStringInput\<close> tests emptiness and the length limit on
  the input as given, and returns the input trimmed: whenever it accepts \<open>s\<close> and
  returns \<open>r\<close>, \<open>s\<close> is not empty and within the limit, and \<open>r\<close> is \<open>s.trim()\<close>, that
  is \<open>s\<close> without its leading and trailing white space. So an input made of white space only, not empty and
  within the limit (a single space, say), is accepted and the empty string is returned,
  although the empty input is rejected; and an input longer than the limit is rejected
  whatever its trimmed length is. The returned string can therefore be shorter than the
  checked one, and of length zero.
\<close>

theorem validateString_whitespace_only:
  "(validateStringInput (JStr s) fieldName maxLength = Inr r
      \<longrightarrow> s \<noteq> [] \<and> length s \<le> maxLength \<and> r = trim s \<and> trimmed_of s r)
   \<and> (s \<noteq> [] \<and> length s \<le> maxLength \<and> list_all is_ws s
      \<longrightarrow> validateStringInput (JStr s) fieldName maxLength = Inr [])
   \<and> validateStringInput (JStr []) fieldName maxLength
       = Inl (McpError InvalidParams (fieldName @ js '' cannot be empty''))
   \<and> (maxLength < length s
      \<longrightarrow> validateStringInput (JStr s) fieldName maxLength
          = Inl (McpError InvalidParams
                  (fieldName @ js '' cannot exceed '' @ nat_to_string maxLength
                   @ js '' characters'')))"
proof (intro conjI impI)
  assume a: "validateStringInput (JStr s) fieldName maxLength = Inr r"
  then have 0: "r = trim s" and 1: "s \<noteq> []" and 2: "length s \<le> maxLength"
    by (auto simp: validateStringInput_def split: if_splits)
  then have 3: "trimmed_of s r" by (simp add: trim_trimmed_of)
  from 0 show "r = trim s" .
  from 1 show "s \<noteq> []" .
  from 2 show "length s \<le> maxLength" .
  from 3 show "trimmed_of s r" .
next
  assume "s \<noteq> [] \<and> length s \<le> maxLength \<and> list_all is_ws s"
  then show "validateStringInput (JStr s) fieldName maxLength = Inr []"
    by (simp add: validateStringInput_def whitespace_not_dangerous trim_whitespace)
next
  show "validateStringInput (JStr []) fieldName maxLength
       = Inl (McpError InvalidParams (fieldName @ js '' cannot be empty''))"
    by (simp add: validateStringInput_def)
next
  assume "maxLength < length s"
  then show "validateStringInput (JStr s) fieldName maxLength
          = Inl (McpError InvalidParams
                  (fieldName @ js '' cannot exceed '' @ nat_to_string maxLength
                   @ js '' characters''))"
    by (auto simp: validateStringInput_def)
qed

text \<open>The theorem at \<open>" a "\<close> with the limit 3, which is accepted and returned as \<open>"a"\<close>;
  at a single space; and at \<open>" a "\<close> with the limit 1, which is rejected although its
  trimmed text has one character.\<close>

theorem validateString_whitespace_only_witness:
  "validateStringInput (JStr (js '' a '')) (js ''title'') 3 = Inr (js ''a'')
   \<and> trimmed_of (js '' a '') (js ''a'')
   \<and> js '' '' \<noteq> [] \<and> length (js '' '') \<le> maxStringLength \<and> list_all is_ws (js '' '')
   \<and> validateStringInput (JStr (js '' '')) (js ''title'') maxStringLength = Inr []
   \<and> (1::nat) < length (js '' a '')
   \<and> validateStringInput (JStr (js '' a '')) (js ''title'') 1
        = Inl (McpError InvalidParams (js ''title cannot exceed 1 characters''))"
proof -
  have d: "\<not> list_ex (\<lambda>pattern. regex_test pattern (js '' a '')) dangerousPatterns"
    by code_simp
  have t: "trim (js '' a '') = js ''a''" by code_simp
  have l: "length (js '' a '') = 3" by (simp add: js_def)
  have 0: "validateStringInput (JStr (js '' a '')) (js ''title'') 3 = Inr (js ''a'')"
    unfolding validateStringInput_def using d t l by simp
  have 1: "js '' '' \<noteq> [] \<and> length (js '' '') \<le> maxStringLength \<and> list_all is_ws (js '' '')"
    by (simp add: js_def maxStringLength_def is_ws_def whitespace_units_def)
  have 2: "(1::nat) < length (js '' a '')" by (simp add: js_def)
  have 3: "js ''title'' @ js '' cannot exceed '' @ nat_to_string 1 @ js '' characters''
       = js ''title cannot exceed 1 characters''"
    by (simp add: js_def nat_to_string.simps)
  have 4: "trimmed_of (js '' a '') (js ''a'')"
    using validateString_whitespace_only [of "js '' a ''" "js ''title''" 3 "js ''a''"] 0
    by blast
  have 5: "validateStringInput (JStr (js '' '')) (js ''title'') maxStringLength = Inr []"
    using validateString_whitespace_only [of "js '' ''" "js ''title''" maxStringLength] 1
    by blast
  have 6: "validateStringInput (JStr (js '' a '')) (js ''title'') 1
        = Inl (McpError InvalidParams (js ''title cannot exceed 1 characters''))"
    using validateString_whitespace_only [of "js '' a ''" "js ''title''" 1] 2
    unfolding 3 by blast
  from 0 1 2 4 5 6 show ?thesis by blast
qed

section \<open>What the mapped parameters contain\<close>

lemma sequence_fields_member:
  "sequence_fields fs = Inr obj \<Longrightarrow> (k, v) \<in> set obj \<Longrightarrow> (k, Inr v) \<in> set fs"
  by (induction fs arbitrary: obj rule: sequence_fields.induct)
     (auto split: sum.splits)

lemma string_field_defined [simp]:
  "string_field v f m \<noteq> Inr JUndefined" "string_field v f m \<noteq> Inr JNull"
  by (cases "validateStringInput v f m"; simp add: string_field_def)+

lemma date_field_defined [simp]:
  "date_field v f \<noteq> Inr JUndefined" "date_field v f \<noteq> Inr JNull"
  by (cases "validateDateInput v f"; simp add: date_field_def)+

lemma array_field_defined [simp]:
  "array_field v f \<noteq> Inr JUndefined" "array_field v f \<noteq> Inr JNull"
  by (cases "validateArrayInput v f maxArrayLength"; simp add: array_field_def)+

lemma mapped_fields_defined:
  "list_all (\<lambda>(k, e). e \<noteq> Inr JUndefined) (mapped_fields args)"
  by (simp add: mapped_fields_def)


lemma supplied_simps:
  "supplied args (js ''name'')
     = (truthy (obj_get args (js ''title'')) \<or> truthy (obj_get args (js ''name'')))"
  "supplied args (js ''title'') = truthy (obj_get args (js ''title''))"
  "supplied args (js ''id'') = truthy (obj_get args (js ''id''))"
  "supplied args (js ''notes'') = truthy (obj_get args (js ''notes''))"
  "supplied args (js ''activation_date'')
     = (truthy (obj_get args (js ''when'')) \<or> truthy (obj_get args (js ''due_date'')))"
  "supplied args (js ''due_date'') = truthy (obj_get args (js ''deadline''))"
  "supplied args (js ''area'')
     = (truthy (obj_get args (js ''area_title'')) \<or> truthy (obj_get args (js ''area'')))"
  "supplied args (js ''area_id'') = truthy (obj_get args (js ''area_id''))"
  "supplied args (js ''project'')
     = (truthy (obj_get args (js ''list_title'')) \<or> truthy (obj_get args (js ''project'')))"
  "supplied args (js ''list_id'') = truthy (obj_get args (js ''list_id''))"
  "supplied args (js ''tags'') = truthy (obj_get args (js ''tags''))"
  "supplied args (js ''checklist_items'') = truthy (obj_get args (js ''checklist_items''))"
  "supplied args (js ''todos'') = truthy (obj_get args (js ''todos''))"
  "supplied args (js ''heading'') = truthy (obj_get args (js ''heading''))"
  "supplied args (js ''completed'') = (obj_get args (js ''completed'') \<noteq> JUndefined)"
  "supplied args (js ''canceled'') = (obj_get args (js ''canceled'') \<noteq> JUndefined)"
  by (simp_all add: supplied_def field_table_def flag_keys_def js_def)

lemma mapped_fields_supplied:
  "list_all (\<lambda>(k, e). isl e \<or> e = Inr JNull \<or> supplied args k) (mapped_fields args)"
  by (simp add: mapped_fields_def supplied_simps)


lemma validated_simps:
  "validated_entry args (js ''name'') v
     = (if truthy (obj_get args (js ''title''))
        then string_field (obj_get args (js ''title'')) (js ''title'') maxStringLength = Inr v
        else if truthy (obj_get args (js ''name''))
        then string_field (obj_get args (js ''name'')) (js ''name'') maxStringLength = Inr v
        else False)"
  "validated_entry args (js ''title'') v
     = (truthy (obj_get args (js ''title''))
        \<and> string_field (obj_get args (js ''title'')) (js ''title'') maxStringLength = Inr v)"
  "validated_entry args (js ''id'') v
     = (truthy (obj_get args (js ''id''))
        \<and> string_field (obj_get args (js ''id'')) (js ''id'') maxStringLength = Inr v)"
  "validated_entry args (js ''notes'') v
     = (truthy (obj_get args (js ''notes''))
        \<and> string_field (obj_get args (js ''notes'')) (js ''notes'') maxNotesLength = Inr v)"
  "validated_entry args (js ''activation_date'') v
     = (if truthy (obj_get args (js ''when''))
        then date_field (obj_get args (js ''when'')) (js ''when'') = Inr v
        else if truthy (obj_get args (js ''due_date''))
        then date_field (obj_get args (js ''due_date'')) (js ''due_date'') = Inr v
        else False)"
  "validated_entry args (js ''due_date'') v
     = (truthy (obj_get args (js ''deadline''))
        \<and> date_field (obj_get args (js ''deadline'')) (js ''deadline'') = Inr v)"
  "validated_entry args (js ''area'') v
     = (if truthy (obj_get args (js ''area_title''))
        then string_field (obj_get args (js ''area_title'')) (js ''area_title'') maxStringLength = Inr v
        else if truthy (obj_get args (js ''area''))
        then string_field (obj_get args (js ''area'')) (js ''area'') maxStringLength = Inr v
        else False)"
  "validated_entry args (js ''area_id'') v
     = (truthy (obj_get args (js ''area_id''))
        \<and> string_field (obj_get args (js ''area_id'')) (js ''area_id'') maxStringLength = Inr v)"
  "validated_entry args (js ''project'') v
     = (if truthy (obj_get args (js ''list_title''))
        then string_field (obj_get args (js ''list_title'')) (js ''list_title'') maxStringLength = Inr v
        else if truthy (obj_get args (js ''project''))
        then string_field (obj_get args (js ''project'')) (js ''project'') maxStringLength = Inr v
        else False)"
  "validated_entry args (js ''list_id'') v
     = (truthy (obj_get args (js ''list_id''))
        \<and> string_field (obj_get args (js ''list_id'')) (js ''list_id'') maxStringLength = Inr v)"
  "validated_entry args (js ''tags'') v
     = (truthy (obj_get args (js ''tags''))
        \<and> array_field (obj_get args (js ''tags'')) (js ''tags'') = Inr v)"
  "validated_entry args (js ''checklist_items'') v
     = (truthy (obj_get args (js ''checklist_items''))
        \<and> array_field (obj_get args (js ''checklist_items'')) (js ''checklist_items'') = Inr v)"
  "validated_entry args (js ''todos'') v
     = (truthy (obj_get args (js ''todos''))
        \<and> array_field (obj_get args (js ''todos'')) (js ''todos'') = Inr v)"
  "validated_entry args (js ''heading'') v
     = (truthy (obj_get args (js ''heading''))
        \<and> string_field (obj_get args (js ''heading'')) (js ''heading'') maxStringLength = Inr v)"
  "validated_entry args (js ''completed'') v
     = (obj_get args (js ''completed'') \<noteq> JUndefined
        \<and> v = JBool (truthy (obj_get args (js ''completed''))))"
  "validated_entry args (js ''canceled'') v
     = (obj_get args (js ''canceled'') \<noteq> JUndefined
        \<and> v = JBool (truthy (obj_get args (js ''canceled''))))"
  by (simp_all add: validated_entry_def field_table_def flag_keys_def first_supplied_def
      validate_field_def string_field_def date_field_def array_field_def js_def)

lemma entry_okI:
  assumes "\<And>v. e = Inr v \<Longrightarrow> v = JNull \<or> validated_entry args k v"
  shows "case e of Inl err \<Rightarrow> True | Inr v \<Rightarrow> v = JNull \<or> validated_entry args k v"
  using assms by (cases e) auto

lemma entries_validated:
  "case (if truthy (obj_get args (js ''title'')) then string_field (obj_get args (js ''title'')) (js ''title'') maxStringLength else if truthy (obj_get args (js ''name'')) then string_field (obj_get args (js ''name'')) (js ''name'') maxStringLength else Inr JNull) of
      Inl err \<Rightarrow> True
    | Inr v \<Rightarrow> v = JNull \<or> validated_entry args (js ''name'') v"
  "case (if truthy (obj_get args (js ''title'')) then string_field (obj_get args (js ''title'')) (js ''title'') maxStringLength else Inr JNull) of
      Inl err \<Rightarrow> True
    | Inr v \<Rightarrow> v = JNull \<or> validated_entry args (js ''title'') v"
  "case (if truthy (obj_get args (js ''id'')) then string_field (obj_get args (js ''id'')) (js ''id'') maxStringLength else Inr JNull) of
      Inl err \<Rightarrow> True
    | Inr v \<Rightarrow> v = JNull \<or> validated_entry args (js ''id'') v"
  "case (if truthy (obj_get args (js ''notes'')) then string_field (obj_get args (js ''notes'')) (js ''notes'') maxNotesLength else Inr JNull) of
      Inl err \<Rightarrow> True
    | Inr v \<Rightarrow> v = JNull \<or> validated_entry args (js ''notes'') v"
  "case (if truthy (obj_get args (js ''when'')) then date_field (obj_get args (js ''when'')) (js ''when'') else if truthy (obj_get args (js ''due_date'')) then date_field (obj_get args (js ''due_date'')) (js ''due_date'') else Inr JNull) of
      Inl err \<Rightarrow> True
    | Inr v \<Rightarrow> v = JNull \<or> validated_entry args (js ''activation_date'') v"
  "case (if truthy (obj_get args (js ''deadline'')) then date_field (obj_get args (js ''deadline'')) (js ''deadline'') else Inr JNull) of
      Inl err \<Rightarrow> True
    | Inr v \<Rightarrow> v = JNull \<or> validated_entry args (js ''due_date'') v"
  "case (if truthy (obj_get args (js ''area_title'')) then string_field (obj_get args (js ''area_title'')) (js ''area_title'') maxStringLength else if truthy (obj_get args (js ''area'')) then string_field (obj_get args (js ''area'')) (js ''area'') maxStringLength else Inr JNull) of
      Inl err \<Rightarrow> True
    | Inr v \<Rightarrow> v = JNull \<or> validated_entry args (js ''area'') v"
  "case (if truthy (obj_get args (js ''area_id'')) then string_field (obj_get args (js ''area_id'')) (js ''area_id'') maxStringLength else Inr JNull) of
      Inl err \<Rightarrow> True
    | Inr v \<Rightarrow> v = JNull \<or> validated_entry args (js ''area_id'') v"
  "case (if truthy (obj_get args (js ''list_title'')) then string_field (obj_get args (js ''list_title'')) (js ''list_title'') maxStringLength else if truthy (obj_get args (js ''project'')) then string_field (obj_get args (js ''project'')) (js ''project'') maxStringLength else Inr JNull) of
      Inl err \<Rightarrow> True
    | Inr v \<Rightarrow> v = JNull \<or> validated_entry args (js ''project'') v"
  "case (if truthy (obj_get args (js ''list_id'')) then string_field (obj_get args (js ''list_id'')) (js ''list_id'') maxStringLength else Inr JNull) of
      Inl err \<Rightarrow> True
    | Inr v \<Rightarrow> v = JNull \<or> validated_entry args (js ''list_id'') v"
  "case (if truthy (obj_get args (js ''tags'')) then array_field (obj_get args (js ''tags'')) (js ''tags'') else Inr JNull) of
      Inl err \<Rightarrow> True
    | Inr v \<Rightarrow> v = JNull \<or> validated_entry args (js ''tags'') v"
  "case (if truthy (obj_get args (js ''checklist_items'')) then array_field (obj_get args (js ''checklist_items'')) (js ''checklist_items'') else Inr JNull) of
      Inl err \<Rightarrow> True
    | Inr v \<Rightarrow> v = JNull \<or> validated_entry args (js ''checklist_items'') v"
  "case (if truthy (obj_get args (js ''todos'')) then array_field (obj_get args (js ''todos'')) (js ''todos'') else Inr JNull) of
      Inl err \<Rightarrow> True
    | Inr v \<Rightarrow> v = JNull \<or> validated_entry args (js ''todos'') v"
  "case (if truthy (obj_get args (js ''heading'')) then string_field (obj_get args (js ''heading'')) (js ''heading'') maxStringLength else Inr JNull) of
      Inl err \<Rightarrow> True
    | Inr v \<Rightarrow> v = JNull \<or> validated_entry args (js ''heading'') v"
  "case (if obj_get args (js ''completed'') \<noteq> JUndefined then Inr (JBool (truthy (obj_get args (js ''completed'')))) else Inr JNull) of
      Inl err \<Rightarrow> True
    | Inr v \<Rightarrow> v = JNull \<or> validated_entry args (js ''completed'') v"
  "case (if obj_get args (js ''canceled'') \<noteq> JUndefined then Inr (JBool (truthy (obj_get args (js ''canceled'')))) else Inr JNull) of
      Inl err \<Rightarrow> True
    | Inr v \<Rightarrow> v = JNull \<or> validated_entry args (js ''canceled'') v"
  by (rule entry_okI, simp add: validated_simps split: if_splits)+

lemma mapped_fields_validated:
  "list_all (\<lambda>(k, e). case e of Inl err \<Rightarrow> True | Inr v \<Rightarrow> v = JNull \<or> validated_entry args k v)
     (mapped_fields args)"
  unfolding mapped_fields_def
  by (simp only: list_all_Nil_iff list_all_Cons_iff prod.case entries_validated simp_thms)

lemma insert_index_set: "set (insert_index obj k v) = insert (k, v) (set obj)"
  by (induction obj k v rule: insert_index.induct) auto

lemma obj_set_member:
  "(k', v') \<in> set (obj_set obj k v) \<Longrightarrow> (k', v') \<in> set obj \<or> (k', v') = (k, v)"
  by (auto simp: obj_set_def insert_index_set split: if_splits)

lemma spread_member:
  "(k, v) \<in> set (spread obj extra) \<Longrightarrow> (k, v) \<in> set obj \<or> (k, v) \<in> set extra"
  unfolding spread_def
proof (induction extra arbitrary: obj)
  case Nil
  then show ?case by simp
next
  case (Cons x extra)
  obtain k' v' where x: "x = (k', v')" by (cases x)
  with Cons.prems have "(k, v) \<in> set (foldl (\<lambda>acc (k, v). obj_set acc k v) (obj_set obj k' v') extra)"
    by simp
  from Cons.IH [OF this] show ?case
    using x obj_set_member by fastforce
qed

lemma mapped_member:
  assumes "validateAndMapParameters args additionalFields = Inr result"
      and "(k, v) \<in> set result"
  shows "v \<noteq> JNull"
    and "(k, v) \<in> set additionalFields
         \<or> (v \<noteq> JUndefined \<and> supplied args k \<and> validated_entry args k v)"
proof -
  from assms(1) obtain obj where obj: "sequence_fields (mapped_fields args) = Inr obj"
      and result: "result = filter (\<lambda>(k, v). v \<noteq> JNull) (spread obj additionalFields)"
    by (auto simp: validateAndMapParameters_def split: sum.splits)
  from result assms(2) show nn: "v \<noteq> JNull" by auto
  from result assms(2) have "(k, v) \<in> set (spread obj additionalFields)" by auto
  then consider (extra) "(k, v) \<in> set additionalFields" | (own) "(k, v) \<in> set obj"
    using spread_member by blast
  then show "(k, v) \<in> set additionalFields
         \<or> (v \<noteq> JUndefined \<and> supplied args k \<and> validated_entry args k v)"
  proof cases
    case extra
    then show ?thesis by simp
  next
    case own
    with obj have m: "(k, Inr v) \<in> set (mapped_fields args)"
      by (rule sequence_fields_member)
    with mapped_fields_defined [of args] have "v \<noteq> JUndefined"
      by (auto simp: list_all_iff)
    moreover from m mapped_fields_supplied [of args] nn have "supplied args k"
      by (auto simp: list_all_iff)
    moreover from m mapped_fields_validated [of args] nn have "validated_entry args k v"
      by (auto simp: list_all_iff)
    ultimately show ?thesis by simp
  qed
qed

text \<open>
  Claim C3 says that for every argument object and every object of additional fields
  no key of the result has the value \<open>null\<close> or \<open>undefined\<close>. The filter of
  \<open>validateAndMapParameters\<close> is \<open>v !== null\<close>, and the additional fields are written over
  the result unchecked: a property they give as \<open>undefined\<close> stays in the result.
\<close>

theorem mapped_undefined_counterexample:
  "validateAndMapParameters [(js ''title'', JStr (js ''X''))] [(js ''status'', JUndefined)]
     = Inr [(js ''name'', JStr (js ''X'')), (js ''title'', JStr (js ''X'')),
            (js ''status'', JUndefined)]
   \<and> \<not> no_undefined_values
        [(js ''name'', JStr (js ''X'')), (js ''title'', JStr (js ''X'')),
         (js ''status'', JUndefined)]"
  by code_simp

text \<open>
  Claim C3, as amended. Whenever \<open>validateAndMapParameters\<close> returns, no key of the
  result has the value \<open>null\<close>; none has the value \<open>undefined\<close> provided the additional
  fields give no property as \<open>undefined\<close>; every key of the result is a key of the
  additional fields or a key of the mapper's table that the caller supplied, so a field
  that was not supplied (or has a value treated as absent) is left out altogether; and
  every entry of the result is an entry of the additional fields, carried over
  unchecked, or the validated entry of its key: what the validator of that field
  returned for the argument the caller supplied.
\<close>

theorem mapped_has_no_null:
  assumes "validateAndMapParameters args additionalFields = Inr result"
  shows "no_null_values result
       \<and> (no_undefined_values additionalFields \<longrightarrow> no_undefined_values result)
       \<and> (\<forall>k \<in> obj_keys result. k \<in> obj_keys additionalFields \<or> supplied args k)
       \<and> (\<forall>k v. (k, v) \<in> set result
            \<longrightarrow> (k, v) \<in> set additionalFields \<or> validated_entry args k v)"
proof (intro conjI impI ballI allI)
  show "no_null_values result"
    unfolding no_null_values_def list_all_iff using mapped_member(1) [OF assms] by auto
next
  assume u: "no_undefined_values additionalFields"
  show "no_undefined_values result"
    unfolding no_undefined_values_def list_all_iff
  proof (clarify)
    fix k assume "(k, JUndefined) \<in> set result"
    from mapped_member(2) [OF assms this] have "(k, JUndefined) \<in> set additionalFields" by simp
    with u show False by (auto simp: no_undefined_values_def list_all_iff)
  qed
next
  fix k assume "k \<in> obj_keys result"
  then obtain v where "(k, v) \<in> set result" by (auto simp: obj_keys_def)
  from mapped_member(2) [OF assms this]
  show "k \<in> obj_keys additionalFields \<or> supplied args k"
    by (force simp: obj_keys_def)
next
  fix k v assume "(k, v) \<in> set result"
  from mapped_member(2) [OF assms this]
  show "(k, v) \<in> set additionalFields \<or> validated_entry args k v" by blast
qed

text \<open>The theorem at \<open>{title: " Minimal task ", notes: null, when: ""}\<close> with the
  additional fields \<open>{status: "open", heading: null}\<close>: neither \<open>notes\<close>,
  \<open>activation_date\<close> nor \<open>heading\<close> is a key of the result, and its \<open>title\<close> is what
  \<open>validateStringInput\<close> returns for the title given.\<close>

theorem mapped_has_no_null_witness:
  "validateAndMapParameters
      [(js ''title'', JStr (js '' Minimal task '')), (js ''notes'', JNull), (js ''when'', JStr [])]
      [(js ''status'', JStr (js ''open'')), (js ''heading'', JNull)]
     = Inr [(js ''name'', JStr (js ''Minimal task'')), (js ''title'', JStr (js ''Minimal task'')),
            (js ''status'', JStr (js ''open''))]
   \<and> no_undefined_values [(js ''status'', JStr (js ''open'')), (js ''heading'', JNull)]
   \<and> no_null_values
        [(js ''name'', JStr (js ''Minimal task'')), (js ''title'', JStr (js ''Minimal task'')),
         (js ''status'', JStr (js ''open''))]
   \<and> no_undefined_values
        [(js ''name'', JStr (js ''Minimal task'')), (js ''title'', JStr (js ''Minimal task'')),
         (js ''status'', JStr (js ''open''))]
   \<and> js ''title'' \<in> obj_keys
        [(js ''name'', JStr (js ''Minimal task'')), (js ''title'', JStr (js ''Minimal task'')),
         (js ''status'', JStr (js ''open''))]
   \<and> supplied [(js ''title'', JStr (js '' Minimal task '')), (js ''notes'', JNull),
                 (js ''when'', JStr [])] (js ''title'')
   \<and> validated_entry [(js ''title'', JStr (js '' Minimal task '')), (js ''notes'', JNull),
                 (js ''when'', JStr [])] (js ''title'') (JStr (js ''Minimal task''))
   \<and> validateStringInput (JStr (js '' Minimal task '')) (js ''title'') maxStringLength
       = Inr (js ''Minimal task'')"
proof -
  let ?args = "[(js ''title'', JStr (js '' Minimal task '')), (js ''notes'', JNull),
                (js ''when'', JStr [])]"
  let ?extra = "[(js ''status'', JStr (js ''open'')), (js ''heading'', JNull)]"
  let ?result = "[(js ''name'', JStr (js ''Minimal task'')),
                  (js ''title'', JStr (js ''Minimal task'')), (js ''status'', JStr (js ''open''))]"
  have 1: "validateAndMapParameters ?args ?extra = Inr ?result" by code_simp
  have 2: "no_undefined_values ?extra" by (simp add: no_undefined_values_def)
  have 3: "js ''title'' \<in> obj_keys ?result" by (simp add: obj_keys_def)
  have 4: "js ''title'' \<notin> obj_keys ?extra" by (simp add: obj_keys_def js_def)
  have 5: "(js ''title'', JStr (js ''Minimal task'')) \<in> set ?result" by simp
  have 6: "(js ''title'', JStr (js ''Minimal task'')) \<notin> set ?extra" by (simp add: js_def)
  note t = mapped_has_no_null [OF 1]
  from t 5 6 have 7: "validated_entry ?args (js ''title'') (JStr (js ''Minimal task''))" by blast
  then have 8: "validateStringInput (JStr (js '' Minimal task '')) (js ''title'') maxStringLength
       = Inr (js ''Minimal task'')"
    by (cases "validateStringInput (JStr (js '' Minimal task '')) (js ''title'') maxStringLength")
       (auto simp: validated_simps string_field_def obj_get_def split: if_splits)
  from t 1 2 3 4 7 8 show ?thesis by blast
qed

section \<open>Oversized scripts\<close>

lemma executeJXA_oversized:
  assumes "maxScriptSize < length script"
  shows "executeJXA rt script params
           = (Inl (McpError InternalError
                    (js ''JXA execution failed: '' @ js ''MCP error '' @ int_to_string (- 32602)
                     @ js '': '' @ js ''Generated JXA script too large: ''
                     @ nat_to_string (length script) @ js '' bytes (max: ''
                     @ nat_to_string maxScriptSize @ js '')'')), [])"
  using assms by (simp add: executeJXA_def executeJXA_try_def js_def)

lemma executeJXA_never_InvalidParams:
  "fst (executeJXA rt script params) \<noteq> Inl (McpError InvalidParams msg)"
  by (auto simp: executeJXA_def split: prod.splits sum.splits)

text \<open>
  Claim C8. A script longer than \<open>maxScriptSize\<close> is never handed to the executor
  (\<open>executeJXA_oversized\<close>: the list of executor calls is empty), but the failure
  \<open>executeJXA\<close> raises for it is not \<open>InvalidParams\<close>: the \<open>McpError\<close> with that code is
  thrown inside the \<open>try\<close> block, and the \<open>catch\<close> of the same function replaces every
  error by an \<open>McpError\<close> with the code \<open>InternalError\<close>
  (\<open>executeJXA_never_InvalidParams\<close>), whose message quotes the message of the error it
  replaces. The theorem evaluates \<open>executeJXA\<close> at a script of 102401 code units, one
  more than the limit, for any runtime and parameters.
\<close>

theorem oversized_script_is_InternalError:
  "maxScriptSize < length (replicate 102401 (0x61 :: codeunit))
   \<and> executeJXA rt (replicate 102401 0x61) params
       = (Inl (McpError InternalError
                (js ''JXA execution failed: MCP error -32602: Generated JXA script too large: 102401 bytes (max: 102400)'')),
          [])"
proof -
  define script where "script = replicate 102401 (0x61 :: codeunit)"
  have len: "length script = 102401" unfolding script_def by (rule length_replicate)
  have 1: "maxScriptSize < length script" unfolding len by (simp add: maxScriptSize_def)
  have 2: "nat_to_string 102401 = js ''102401''"
    by (simp add: nat_to_string.simps js_def)
  have 3: "nat_to_string maxScriptSize = js ''102400''"
    unfolding maxScriptSize_def by (simp add: nat_to_string.simps js_def)
  have 5: "int_to_string (- 32602) = js ''-32602''"
    by (simp add: int_to_string_def nat_to_string.simps js_def)
  have 4: "js ''JXA execution failed: '' @ js ''MCP error '' @ js ''-32602'' @ js '': ''
          @ js ''Generated JXA script too large: ''
          @ js ''102401'' @ js '' bytes (max: '' @ js ''102400'' @ js '')''
        = js ''JXA execution failed: MCP error -32602: Generated JXA script too large: 102401 bytes (max: 102400)''"
    by (simp add: js_def)
  have "executeJXA rt script params
       = (Inl (McpError InternalError
                (js ''JXA execution failed: MCP error -32602: Generated JXA script too large: 102401 bytes (max: 102400)'')),
          [])"
    unfolding executeJXA_oversized [OF 1, of rt params] len 2 3 5 4 ..
  with 1 show ?thesis unfolding script_def by (rule conjI)
qed

section \<open>Unwrapping a successful response\<close>

lemma executeJXA_reports:
  assumes "script_reports rt script params parsed"
      and "parsed \<noteq> JNull"
      and "\<not> (get_prop parsed (js ''success'') = JBool False \<and> truthy (get_prop parsed (js ''error'')))"
  shows "executeJXA rt script params = (Inr parsed, [(script, params)])"
  using assms
  by (auto simp: script_reports_def executeJXA_def executeJXA_try_def parse_response_def
      split: exec_outcome.splits)

text \<open>
  Claim C2 says that a parsed result with \<open>success: true\<close> and an absent or falsy \<open>data\<close>
  is a valid case of the normalization step and not an error. \<open>executeThingsJXA\<close>
  returns \<open>data\<close> only under the guard \<open>result.success && result.data\<close>: for the output
  \<open>{"success":true,"data":false}\<close> of a check, \<open>executeJXA\<close> returns the parsed object
  and \<open>executeThingsJXA\<close> throws \<open>Error('Unknown error occurred')\<close>.
\<close>

theorem data_false_counterexample:
  "executeJXA
      (printing_runtime success_false_data_text
         (JObj [(js ''success'', JBool True), (js ''data'', JBool False)]))
      (js ''run()'') (JObj [])
     = (Inr (JObj [(js ''success'', JBool True), (js ''data'', JBool False)]),
        [(js ''run()'', JObj [])])
   \<and> executeThingsJXA
      (printing_runtime success_false_data_text
         (JObj [(js ''success'', JBool True), (js ''data'', JBool False)]))
      (js ''run()'') (JObj [])
     = (Inl (Error (js ''Unknown error occurred'')), [(js ''run()'', JObj [])])"
proof -
  let ?rt = "printing_runtime success_false_data_text
         (JObj [(js ''success'', JBool True), (js ''data'', JBool False)])"
  let ?parsed = "JObj [(js ''success'', JBool True), (js ''data'', JBool False)]"
  have r: "script_reports ?rt (js ''run()'') (JObj []) ?parsed"
    by (simp add: script_reports_def printing_runtime_def maxScriptSize_def js_def)
  have p: "get_prop ?parsed (js ''success'') = JBool True"
      "get_prop ?parsed (js ''data'') = JBool False"
      "get_prop ?parsed (js ''error'') = JUndefined"
    by (simp_all add: obj_get_def js_def)
  have 1: "executeJXA ?rt (js ''run()'') (JObj []) = (Inr ?parsed, [(js ''run()'', JObj [])])"
    using r p by (intro executeJXA_reports) auto
  have 2: "executeThingsJXA ?rt (js ''run()'') (JObj [])
     = (Inl (Error (js ''Unknown error occurred'')), [(js ''run()'', JObj [])])"
    unfolding executeThingsJXA_def 1
    by (simp add: optional_error_message_def js_or_def obj_get_def js_def)
  from 1 2 show ?thesis by (rule conjI)
qed

text \<open>
  Claim C2, as amended. When a script ran and its output parsed to a result with
  \<open>success: true\<close>, \<open>executeJXA\<close> returns that result as it is, and \<open>executeThingsJXA\<close>
  returns its \<open>data\<close> unwrapped when \<open>data\<close> is truthy; when \<open>data\<close> is absent or falsy
  it throws an \<open>Error\<close> whose message is that of \<open>result.error\<close>, or
  \<open>Unknown error occurred\<close>. A result whose \<open>data\<close> is \<open>false\<close> is a valid value only for
  a caller of \<open>executeJXA\<close> itself, as the is-running check is.
\<close>

theorem success_returns_truthy_data:
  assumes "script_reports rt script params parsed"
      and "get_prop parsed (js ''success'') = JBool True"
  shows "executeJXA rt script params = (Inr parsed, [(script, params)])
       \<and> executeThingsJXA rt script params
           = (if truthy (get_prop parsed (js ''data''))
              then Inr (get_prop parsed (js ''data''))
              else Inl (Error (ToString rt (js_or (optional_error_message parsed)
                                               (JStr (js ''Unknown error occurred''))))),
              [(script, params)])"
proof -
  from assms(2) have "parsed \<noteq> JNull" by auto
  with assms have 1: "executeJXA rt script params = (Inr parsed, [(script, params)])"
    by (intro executeJXA_reports) auto
  with assms(2) show ?thesis by (simp add: executeThingsJXA_def)
qed

text \<open>The theorem at the output \<open>{"success":true,"data":{"id":"abc"}}\<close>.\<close>

theorem success_returns_truthy_data_witness:
  "script_reports
      (printing_runtime created_text
         (JObj [(js ''success'', JBool True), (js ''data'', JObj [(js ''id'', JStr (js ''abc''))])]))
      (js ''run()'') (JObj [])
      (JObj [(js ''success'', JBool True), (js ''data'', JObj [(js ''id'', JStr (js ''abc''))])])
   \<and> get_prop (JObj [(js ''success'', JBool True),
                       (js ''data'', JObj [(js ''id'', JStr (js ''abc''))])]) (js ''success'')
       = JBool True
   \<and> executeThingsJXA
        (printing_runtime created_text
           (JObj [(js ''success'', JBool True), (js ''data'', JObj [(js ''id'', JStr (js ''abc''))])]))
        (js ''run()'') (JObj [])
       = (Inr (JObj [(js ''id'', JStr (js ''abc''))]), [(js ''run()'', JObj [])])"
proof -
  let ?parsed = "JObj [(js ''success'', JBool True),
                       (js ''data'', JObj [(js ''id'', JStr (js ''abc''))])]"
  let ?rt = "printing_runtime created_text ?parsed"
  have r: "script_reports ?rt (js ''run()'') (JObj []) ?parsed"
    by (simp add: script_reports_def printing_runtime_def maxScriptSize_def js_def)
  have s: "get_prop ?parsed (js ''success'') = JBool True"
    by (simp add: obj_get_def js_def)
  have d: "get_prop ?parsed (js ''data'') = JObj [(js ''id'', JStr (js ''abc''))]"
    by (simp add: obj_get_def js_def)
  from success_returns_truthy_data [OF r s] have
    "executeThingsJXA ?rt (js ''run()'') (JObj [])
       = (Inr (JObj [(js ''id'', JStr (js ''abc''))]), [(js ''run()'', JObj [])])"
    unfolding d by simp
  with r s show ?thesis by blast
qed

section \<open>Soft failures of the update and show handlers\<close>

text \<open>An \<open>id\<close> of the mapped parameters that passes the test \<open>!scriptParams.id\<close> is a
  string that is not empty.\<close>

lemma mapped_id_string:
  assumes "validateAndMapParameters args [] = Inr sp" and "truthy (obj_get sp (js ''id''))"
  shows "\<exists>ident. obj_get sp (js ''id'') = JStr ident \<and> ident \<noteq> []"
proof -
  from assms(2) obtain v where m: "map_of sp (js ''id'') = Some v" and v: "obj_get sp (js ''id'') = v"
    by (cases "map_of sp (js ''id'')") (auto simp: obj_get_def)
  from m have "(js ''id'', v) \<in> set sp" by (rule map_of_SomeD)
  from mapped_member(2) [OF assms(1) this] have "validated_entry args (js ''id'') v" by simp
  then have "string_field (obj_get args (js ''id'')) (js ''id'') maxStringLength = Inr v"
    by (simp add: validated_simps)
  then obtain r where "v = JStr r"
    by (cases "validateStringInput (obj_get args (js ''id'')) (js ''id'') maxStringLength")
       (auto simp: string_field_def)
  with assms(2) v show ?thesis by auto
qed

text \<open>\<open>executeThingsJXA\<close> throws exactly when the run of the script did not succeed, and
  it called the executor unless the script was oversized.\<close>

lemma executeThingsJXA_fails:
  assumes "\<not> script_succeeds rt script params"
  shows "\<exists>e. executeThingsJXA rt script params = (Inl e, executor_calls script params)"
proof (cases "length script > maxScriptSize")
  case True
  then show ?thesis
    by (simp add: executeThingsJXA_def executeJXA_def executeJXA_try_def executor_calls_def)
next
  case False
  show ?thesis
  proof (cases "execAsync rt script params")
    case (ExecThrows code msg)
    with False show ?thesis
      by (simp add: executeThingsJXA_def executeJXA_def executeJXA_try_def executor_calls_def)
  next
    case (ExecReturns stdout stderr)
    show ?thesis
    proof (cases "stderr = []")
      case False
      with ExecReturns \<open>\<not> length script > maxScriptSize\<close> show ?thesis
        by (simp add: executeThingsJXA_def executeJXA_def executeJXA_try_def executor_calls_def)
    next
      case True
      show ?thesis
      proof (cases "JSON_parse rt (trim stdout)")
        case (Inl parseMessage)
        with True ExecReturns \<open>\<not> length script > maxScriptSize\<close> show ?thesis
          by (simp add: executeThingsJXA_def executeJXA_def executeJXA_try_def executor_calls_def
              parse_response_def)
      next
        case (Inr parsed)
        with assms True ExecReturns \<open>\<not> length script > maxScriptSize\<close>
        have "\<not> (truthy (get_prop parsed (js ''success'')) \<and> truthy (get_prop parsed (js ''data'')))"
          by (simp add: script_succeeds_def)
        with Inr True ExecReturns \<open>\<not> length script > maxScriptSize\<close> show ?thesis
          by (auto simp: executeThingsJXA_def executeJXA_def executeJXA_try_def executor_calls_def
              parse_response_def)
      qed
    qed
  qed
qed

lemma executeThingsJXA_succeeds:
  assumes "script_succeeds rt script params"
  shows "\<exists>data. executeThingsJXA rt script params = (Inr data, [(script, params)])"
proof -
  from assms obtain stdout parsed where
      l: "length script \<le> maxScriptSize"
    and e: "execAsync rt script params = ExecReturns stdout []"
    and p: "JSON_parse rt (trim stdout) = Inr parsed"
    and s: "truthy (get_prop parsed (js ''success''))"
    and d: "truthy (get_prop parsed (js ''data''))"
    by (auto simp: script_succeeds_def split: exec_outcome.splits sum.splits)
  from s have "parsed \<noteq> JNull" "get_prop parsed (js ''success'') \<noteq> JBool False" by auto
  with l e p s d show ?thesis
    by (simp add: executeThingsJXA_def executeJXA_def executeJXA_try_def parse_response_def)
qed

lemma not_found_does_not_succeed:
  assumes "script_reports rt script params parsed" and "is_not_found_response parsed"
  shows "\<not> script_succeeds rt script params" and "executor_calls script params = [(script, params)]"
  using assms
  by (auto simp: script_reports_def script_succeeds_def is_not_found_response_def executor_calls_def
      split: exec_outcome.splits)

text \<open>The text \<open>JSON.stringify\<close> writes for the data of a soft failure.\<close>

lemma JSON_quote_keys:
  "JSON_quote (js ''success'') = quoted ''success''"
  "JSON_quote (js ''message'') = quoted ''message''"
  "JSON_quote (js ''error'') = quoted ''error''"
  "JSON_quote (js ''TODO_NOT_FOUND'') = quoted ''TODO_NOT_FOUND''"
  "JSON_quote (js ''PROJECT_NOT_FOUND'') = quoted ''PROJECT_NOT_FOUND''"
  "JSON_quote (js ''ITEM_NOT_FOUND'') = quoted ''ITEM_NOT_FOUND''"
  by code_simp+

lemma soft_failure_response:
  assumes "JSON_quote (js code) = quoted code"
  shows "createSuccessResponse rt (not_found_data rt prefix (js code) (JStr ident))
           = soft_failure_envelope (prefix @ ident) code"
  using assms
  by (simp add: createSuccessResponse_def not_found_data_def soft_failure_envelope_def
      JSON_quote_keys) (simp add: js_def)

text \<open>What each of the three handlers returns when the run of its script did not
  succeed.\<close>

lemma updateTodo_soft_failure:
  assumes "validateAndMapParameters args [] = Inr sp"
      and "obj_get sp (js ''id'') = JStr ident" and "ident \<noteq> []"
      and "\<not> script_succeeds rt script (updateTodo_params sp)"
  shows "updateTodo rt script args
           = (Inr (soft_failure_envelope (js ''To-do not found: '' @ ident) ''TODO_NOT_FOUND''),
              executor_calls script (updateTodo_params sp))"
proof -
  from executeThingsJXA_fails [OF assms(4)] obtain e where
    "executeThingsJXA rt script (updateTodo_params sp)
       = (Inl e, executor_calls script (updateTodo_params sp))" ..
  with assms(1-3) show ?thesis
    by (simp add: updateTodo_def soft_failure_response JSON_quote_keys)
qed

lemma updateProject_soft_failure:
  assumes "validateAndMapParameters args [] = Inr sp"
      and "obj_get sp (js ''id'') = JStr ident" and "ident \<noteq> []"
      and "\<not> script_succeeds rt script (updateProject_params sp)"
  shows "updateProject rt script args
           = (Inr (soft_failure_envelope (js ''Project not found: '' @ ident) ''PROJECT_NOT_FOUND''),
              executor_calls script (updateProject_params sp))"
proof -
  from executeThingsJXA_fails [OF assms(4)] obtain e where
    "executeThingsJXA rt script (updateProject_params sp)
       = (Inl e, executor_calls script (updateProject_params sp))" ..
  with assms(1-3) show ?thesis
    by (simp add: updateProject_def soft_failure_response JSON_quote_keys)
qed

lemma showItem_soft_failure:
  assumes "validateStringInput (obj_get args (js ''id'')) (js ''id'') maxStringLength = Inr itemId"
      and "\<not> script_succeeds rt script (JObj [(js ''id'', JStr itemId)])"
  shows "showItem rt script args
           = (Inr (soft_failure_envelope (js ''Item not found: '' @ itemId) ''ITEM_NOT_FOUND''),
              executor_calls script (JObj [(js ''id'', JStr itemId)]))"
proof -
  from executeThingsJXA_fails [OF assms(2)] obtain e where
    "executeThingsJXA rt script (JObj [(js ''id'', JStr itemId)])
       = (Inl e, executor_calls script (JObj [(js ''id'', JStr itemId)]))" ..
  with assms(1) show ?thesis
    by (simp add: showItem_def soft_failure_response JSON_quote_keys)
qed

text \<open>The envelopes and the validation of the id \<open>zzz\<close>, evaluated.\<close>

lemma envelope_zzz:
  "soft_failure_envelope (js ''To-do not found: '' @ js ''zzz'') ''TODO_NOT_FOUND''
     = JObj [(js ''content'',
                    JArr [JObj [(js ''type'', JStr (js ''text'')),
                                (js ''text'',
                                 JStr (js ''{'' @ quoted ''success'' @ js '':false,''
                                       @ quoted ''message'' @ js '':'' @ quoted ''To-do not found: zzz'' @ js '',''
                                       @ quoted ''error'' @ js '':'' @ quoted ''TODO_NOT_FOUND'' @ js ''}''))]])]"
  "soft_failure_envelope (js ''Project not found: '' @ js ''zzz'') ''PROJECT_NOT_FOUND''
     = JObj [(js ''content'',
                    JArr [JObj [(js ''type'', JStr (js ''text'')),
                                (js ''text'',
                                 JStr (js ''{'' @ quoted ''success'' @ js '':false,''
                                       @ quoted ''message'' @ js '':'' @ quoted ''Project not found: zzz'' @ js '',''
                                       @ quoted ''error'' @ js '':'' @ quoted ''PROJECT_NOT_FOUND'' @ js ''}''))]])]"
  "soft_failure_envelope (js ''Item not found: '' @ js ''zzz'') ''ITEM_NOT_FOUND''
     = JObj [(js ''content'',
                    JArr [JObj [(js ''type'', JStr (js ''text'')),
                                (js ''text'',
                                 JStr (js ''{'' @ quoted ''success'' @ js '':false,''
                                       @ quoted ''message'' @ js '':'' @ quoted ''Item not found: zzz'' @ js '',''
                                       @ quoted ''error'' @ js '':'' @ quoted ''ITEM_NOT_FOUND'' @ js ''}''))]])]"
proof -
  have "JSON_quote (js ''To-do not found: '' @ js ''zzz'') = quoted ''To-do not found: zzz''"
       "JSON_quote (js ''Project not found: '' @ js ''zzz'') = quoted ''Project not found: zzz''"
       "JSON_quote (js ''Item not found: '' @ js ''zzz'') = quoted ''Item not found: zzz''"
    by code_simp+
  then show
  "soft_failure_envelope (js ''To-do not found: '' @ js ''zzz'') ''TODO_NOT_FOUND''
     = JObj [(js ''content'',
                    JArr [JObj [(js ''type'', JStr (js ''text'')),
                                (js ''text'',
                                 JStr (js ''{'' @ quoted ''success'' @ js '':false,''
                                       @ quoted ''message'' @ js '':'' @ quoted ''To-do not found: zzz'' @ js '',''
                                       @ quoted ''error'' @ js '':'' @ quoted ''TODO_NOT_FOUND'' @ js ''}''))]])]"
  "soft_failure_envelope (js ''Project not found: '' @ js ''zzz'') ''PROJECT_NOT_FOUND''
     = JObj [(js ''content'',
                    JArr [JObj [(js ''type'', JStr (js ''text'')),
                                (js ''text'',
                                 JStr (js ''{'' @ quoted ''success'' @ js '':false,''
                                       @ quoted ''message'' @ js '':'' @ quoted ''Project not found: zzz'' @ js '',''
                                       @ quoted ''error'' @ js '':'' @ quoted ''PROJECT_NOT_FOUND'' @ js ''}''))]])]"
  "soft_failure_envelope (js ''Item not found: '' @ js ''zzz'') ''ITEM_NOT_FOUND''
     = JObj [(js ''content'',
                    JArr [JObj [(js ''type'', JStr (js ''text'')),
                                (js ''text'',
                                 JStr (js ''{'' @ quoted ''success'' @ js '':false,''
                                       @ quoted ''message'' @ js '':'' @ quoted ''Item not found: zzz'' @ js '',''
                                       @ quoted ''error'' @ js '':'' @ quoted ''ITEM_NOT_FOUND'' @ js ''}''))]])]"
    by (simp_all add: soft_failure_envelope_def)
qed

lemma zzz_validated:
  "validateAndMapParameters [(js ''id'', JStr (js ''zzz''))] [] = Inr [(js ''id'', JStr (js ''zzz''))]"
  "obj_get [(js ''id'', JStr (js ''zzz''))] (js ''id'') = JStr (js ''zzz'')"
  "validateStringInput (obj_get [(js ''id'', JStr (js ''zzz''))] (js ''id'')) (js ''id'')
         maxStringLength = Inr (js ''zzz'')"
  "js ''zzz'' \<noteq> []"
  "truthy (obj_get [(js ''id'', JStr (js ''zzz''))] (js ''id''))"
proof -
  show "validateAndMapParameters [(js ''id'', JStr (js ''zzz''))] [] = Inr [(js ''id'', JStr (js ''zzz''))]"
    by code_simp
  show "obj_get [(js ''id'', JStr (js ''zzz''))] (js ''id'') = JStr (js ''zzz'')"
    by (simp add: obj_get_def)
  show "validateStringInput (obj_get [(js ''id'', JStr (js ''zzz''))] (js ''id'')) (js ''id'')
         maxStringLength = Inr (js ''zzz'')"
    by code_simp
  show "js ''zzz'' \<noteq> []" by (simp add: js_def)
  show "truthy (obj_get [(js ''id'', JStr (js ''zzz''))] (js ''id''))"
    by (simp add: obj_get_def js_def)
qed

text \<open>
  Claim C5. Let the id have passed validation (for the two update handlers: the mapped
  parameters have a non-empty string \<open>ident\<close> as \<open>id\<close>; for \<open>showItem\<close>: \<open>ident\<close> is the
  validated \<open>args.id\<close>), and let the script have run and reported that no item has this
  id, \<open>{success: false, error: {type: 'NotFound', ...}}\<close>. Then \<open>updateTodo\<close>,
  \<open>updateProject\<close> and \<open>showItem\<close> do not throw: each called the executor once and
  returns the response \<open>{content: [{type: "text", text: t}]}\<close> whose text is the JSON
  \<open>{"success":false,"message":m,"error":code}\<close>, where the code is \<open>TODO_NOT_FOUND\<close>,
  \<open>PROJECT_NOT_FOUND\<close> or \<open>ITEM_NOT_FOUND\<close> and the message \<open>m\<close> is
  \<open>To-do not found: \<close>, \<open>Project not found: \<close> or \<open>Item not found: \<close> followed by the
  id.
\<close>

theorem not_found_is_soft_failure:
  "(validateAndMapParameters args [] = Inr sp \<and> obj_get sp (js ''id'') = JStr ident \<and> ident \<noteq> []
      \<and> script_reports rt script (updateTodo_params sp) parsed \<and> is_not_found_response parsed
    \<longrightarrow> updateTodo rt script args
          = (Inr (soft_failure_envelope (js ''To-do not found: '' @ ident) ''TODO_NOT_FOUND''),
             [(script, updateTodo_params sp)]))
   \<and> (validateAndMapParameters args [] = Inr sp \<and> obj_get sp (js ''id'') = JStr ident \<and> ident \<noteq> []
      \<and> script_reports rt script (updateProject_params sp) parsed \<and> is_not_found_response parsed
    \<longrightarrow> updateProject rt script args
          = (Inr (soft_failure_envelope (js ''Project not found: '' @ ident) ''PROJECT_NOT_FOUND''),
             [(script, updateProject_params sp)]))
   \<and> (validateStringInput (obj_get args (js ''id'')) (js ''id'') maxStringLength = Inr ident
      \<and> script_reports rt script (JObj [(js ''id'', JStr ident)]) parsed
      \<and> is_not_found_response parsed
    \<longrightarrow> showItem rt script args
          = (Inr (soft_failure_envelope (js ''Item not found: '' @ ident) ''ITEM_NOT_FOUND''),
             [(script, JObj [(js ''id'', JStr ident)])]))"
proof (intro conjI impI)
  assume h: "validateAndMapParameters args [] = Inr sp \<and> obj_get sp (js ''id'') = JStr ident
      \<and> ident \<noteq> []
      \<and> script_reports rt script (updateTodo_params sp) parsed \<and> is_not_found_response parsed"
  then have "\<not> script_succeeds rt script (updateTodo_params sp)"
      and "executor_calls script (updateTodo_params sp) = [(script, updateTodo_params sp)]"
    using not_found_does_not_succeed by blast+
  with h updateTodo_soft_failure [of args sp ident rt script]
  show "updateTodo rt script args
          = (Inr (soft_failure_envelope (js ''To-do not found: '' @ ident) ''TODO_NOT_FOUND''),
             [(script, updateTodo_params sp)])"
    by simp
next
  assume h: "validateAndMapParameters args [] = Inr sp \<and> obj_get sp (js ''id'') = JStr ident
      \<and> ident \<noteq> []
      \<and> script_reports rt script (updateProject_params sp) parsed \<and> is_not_found_response parsed"
  then have "\<not> script_succeeds rt script (updateProject_params sp)"
      and "executor_calls script (updateProject_params sp) = [(script, updateProject_params sp)]"
    using not_found_does_not_succeed by blast+
  with h updateProject_soft_failure [of args sp ident rt script]
  show "updateProject rt script args
          = (Inr (soft_failure_envelope (js ''Project not found: '' @ ident) ''PROJECT_NOT_FOUND''),
             [(script, updateProject_params sp)])"
    by simp
next
  assume h: "validateStringInput (obj_get args (js ''id'')) (js ''id'') maxStringLength = Inr ident
      \<and> script_reports rt script (JObj [(js ''id'', JStr ident)]) parsed
      \<and> is_not_found_response parsed"
  then have "\<not> script_succeeds rt script (JObj [(js ''id'', JStr ident)])"
      and "executor_calls script (JObj [(js ''id'', JStr ident)])
             = [(script, JObj [(js ''id'', JStr ident)])]"
    using not_found_does_not_succeed by blast+
  with h showItem_soft_failure [of args ident rt script]
  show "showItem rt script args
          = (Inr (soft_failure_envelope (js ''Item not found: '' @ ident) ''ITEM_NOT_FOUND''),
             [(script, JObj [(js ''id'', JStr ident)])])"
    by simp
qed

text \<open>The theorem at the id \<open>zzz\<close>, with the output the \<open>updateTodo\<close> template prints when
  it finds no to-do: the text of the response of \<open>updateTodo\<close> is
  \<open>{"success":false,"message":"To-do not found: zzz","error":"TODO_NOT_FOUND"}\<close>.\<close>

theorem not_found_is_soft_failure_witness:
  "validateAndMapParameters [(js ''id'', JStr (js ''zzz''))] [] = Inr [(js ''id'', JStr (js ''zzz''))]
   \<and> obj_get [(js ''id'', JStr (js ''zzz''))] (js ''id'') = JStr (js ''zzz'')
   \<and> validateStringInput (obj_get [(js ''id'', JStr (js ''zzz''))] (js ''id'')) (js ''id'')
         maxStringLength = Inr (js ''zzz'')
   \<and> js ''zzz'' \<noteq> []
   \<and> is_not_found_response (not_found_response (js ''Todo not found''))
   \<and> script_reports
         (printing_runtime todo_not_found_text (not_found_response (js ''Todo not found'')))
         (js ''run()'') (updateTodo_params [(js ''id'', JStr (js ''zzz''))])
         (not_found_response (js ''Todo not found''))
   \<and> script_reports
         (printing_runtime todo_not_found_text (not_found_response (js ''Todo not found'')))
         (js ''run()'') (updateProject_params [(js ''id'', JStr (js ''zzz''))])
         (not_found_response (js ''Todo not found''))
   \<and> script_reports
         (printing_runtime todo_not_found_text (not_found_response (js ''Todo not found'')))
         (js ''run()'') (JObj [(js ''id'', JStr (js ''zzz''))])
         (not_found_response (js ''Todo not found''))
   \<and> updateTodo
         (printing_runtime todo_not_found_text (not_found_response (js ''Todo not found'')))
         (js ''run()'') [(js ''id'', JStr (js ''zzz''))]
       = (Inr (JObj [(js ''content'',
                    JArr [JObj [(js ''type'', JStr (js ''text'')),
                                (js ''text'',
                                 JStr (js ''{'' @ quoted ''success'' @ js '':false,''
                                       @ quoted ''message'' @ js '':'' @ quoted ''To-do not found: zzz'' @ js '',''
                                       @ quoted ''error'' @ js '':'' @ quoted ''TODO_NOT_FOUND'' @ js ''}''))]])]),
          [(js ''run()'', updateTodo_params [(js ''id'', JStr (js ''zzz''))])])
   \<and> updateProject
         (printing_runtime todo_not_found_text (not_found_response (js ''Todo not found'')))
         (js ''run()'') [(js ''id'', JStr (js ''zzz''))]
       = (Inr (JObj [(js ''content'',
                    JArr [JObj [(js ''type'', JStr (js ''text'')),
                                (js ''text'',
                                 JStr (js ''{'' @ quoted ''success'' @ js '':false,''
                                       @ quoted ''message'' @ js '':'' @ quoted ''Project not found: zzz'' @ js '',''
                                       @ quoted ''error'' @ js '':'' @ quoted ''PROJECT_NOT_FOUND'' @ js ''}''))]])]),
          [(js ''run()'', updateProject_params [(js ''id'', JStr (js ''zzz''))])])
   \<and> showItem
         (printing_runtime todo_not_found_text (not_found_response (js ''Todo not found'')))
         (js ''run()'') [(js ''id'', JStr (js ''zzz''))]
       = (Inr (JObj [(js ''content'',
                    JArr [JObj [(js ''type'', JStr (js ''text'')),
                                (js ''text'',
                                 JStr (js ''{'' @ quoted ''success'' @ js '':false,''
                                       @ quoted ''message'' @ js '':'' @ quoted ''Item not found: zzz'' @ js '',''
                                       @ quoted ''error'' @ js '':'' @ quoted ''ITEM_NOT_FOUND'' @ js ''}''))]])]),
          [(js ''run()'', JObj [(js ''id'', JStr (js ''zzz''))])])"
proof -
  let ?parsed = "not_found_response (js ''Todo not found'')"
  let ?rt = "printing_runtime todo_not_found_text ?parsed"
  let ?args = "[(js ''id'', JStr (js ''zzz''))]"
  note v = zzz_validated(1) and i = zzz_validated(2) and s = zzz_validated(3)
    and n = zzz_validated(4)
  have f: "is_not_found_response ?parsed"
    by (simp add: is_not_found_response_def not_found_response_def obj_get_def js_def)
  have r: "script_reports ?rt (js ''run()'') params ?parsed" for params
    by (simp add: script_reports_def printing_runtime_def maxScriptSize_def js_def)
  note t = not_found_is_soft_failure
    [of ?args ?args "js ''zzz''" ?rt "js ''run()''" ?parsed, unfolded envelope_zzz]
  from t v i s n f r show ?thesis by blast
qed

text \<open>
  Claim C9. \<open>executeThingsJXA\<close> throws exactly when the run of the script did not
  succeed: the script was oversized, the executor rejected (a time-out, a command that
  failed), there was output on the error stream, the output did not parse, or it parsed
  to a result that is no success with data; and the executor was called once unless the
  script was oversized. Once the id has passed validation (for the two update handlers:
  the mapper returned and \<open>scriptParams.id\<close> is truthy; for \<open>showItem\<close>:
  \<open>validateStringInput\<close> returned \<open>itemId\<close>), in every one of these cases the handler
  does not throw: it returns the response \<open>{content: [{type: "text", text: t}]}\<close> whose
  text is the JSON \<open>{"success":false,"message":m,"error":code}\<close> with the code
  \<open>TODO_NOT_FOUND\<close>, \<open>PROJECT_NOT_FOUND\<close> or \<open>ITEM_NOT_FOUND\<close> and a message that ends
  with the id, together with the calls of the executor that were made.
\<close>

theorem execution_errors_become_not_found:
  "((\<exists>e. fst (executeThingsJXA rt script params) = Inl e) = (\<not> script_succeeds rt script params))
   \<and> snd (executeThingsJXA rt script params) = executor_calls script params
   \<and> (validateAndMapParameters args [] = Inr sp \<and> truthy (obj_get sp (js ''id''))
       \<and> \<not> script_succeeds rt script (updateTodo_params sp)
    \<longrightarrow> (\<exists>ident. obj_get sp (js ''id'') = JStr ident
          \<and> updateTodo rt script args
              = (Inr (soft_failure_envelope (js ''To-do not found: '' @ ident) ''TODO_NOT_FOUND''),
                 executor_calls script (updateTodo_params sp))))
   \<and> (validateAndMapParameters args [] = Inr sp \<and> truthy (obj_get sp (js ''id''))
       \<and> \<not> script_succeeds rt script (updateProject_params sp)
    \<longrightarrow> (\<exists>ident. obj_get sp (js ''id'') = JStr ident
          \<and> updateProject rt script args
              = (Inr (soft_failure_envelope (js ''Project not found: '' @ ident)
                        ''PROJECT_NOT_FOUND''),
                 executor_calls script (updateProject_params sp))))
   \<and> (validateStringInput (obj_get args (js ''id'')) (js ''id'') maxStringLength = Inr itemId
       \<and> \<not> script_succeeds rt script (JObj [(js ''id'', JStr itemId)])
    \<longrightarrow> showItem rt script args
          = (Inr (soft_failure_envelope (js ''Item not found: '' @ itemId) ''ITEM_NOT_FOUND''),
             executor_calls script (JObj [(js ''id'', JStr itemId)])))"
proof (intro conjI impI)
  show "(\<exists>e. fst (executeThingsJXA rt script params) = Inl e)
          = (\<not> script_succeeds rt script params)"
    using executeThingsJXA_fails [of rt script params]
      executeThingsJXA_succeeds [of rt script params]
    by (cases "script_succeeds rt script params") auto
  show "snd (executeThingsJXA rt script params) = executor_calls script params"
    using executeThingsJXA_fails [of rt script params]
      executeThingsJXA_succeeds [of rt script params]
    by (cases "script_succeeds rt script params")
       (auto simp: script_succeeds_def executor_calls_def)
next
  assume h: "validateAndMapParameters args [] = Inr sp \<and> truthy (obj_get sp (js ''id''))
       \<and> \<not> script_succeeds rt script (updateTodo_params sp)"
  with mapped_id_string [of args sp] obtain ident where
    "obj_get sp (js ''id'') = JStr ident" "ident \<noteq> []" by blast
  with h updateTodo_soft_failure [of args sp ident rt script]
  show "\<exists>ident. obj_get sp (js ''id'') = JStr ident
          \<and> updateTodo rt script args
              = (Inr (soft_failure_envelope (js ''To-do not found: '' @ ident) ''TODO_NOT_FOUND''),
                 executor_calls script (updateTodo_params sp))"
    by blast
next
  assume h: "validateAndMapParameters args [] = Inr sp \<and> truthy (obj_get sp (js ''id''))
       \<and> \<not> script_succeeds rt script (updateProject_params sp)"
  with mapped_id_string [of args sp] obtain ident where
    "obj_get sp (js ''id'') = JStr ident" "ident \<noteq> []" by blast
  with h updateProject_soft_failure [of args sp ident rt script]
  show "\<exists>ident. obj_get sp (js ''id'') = JStr ident
          \<and> updateProject rt script args
              = (Inr (soft_failure_envelope (js ''Project not found: '' @ ident)
                        ''PROJECT_NOT_FOUND''),
                 executor_calls script (updateProject_params sp))"
    by blast
next
  assume "validateStringInput (obj_get args (js ''id'')) (js ''id'') maxStringLength = Inr itemId
       \<and> \<not> script_succeeds rt script (JObj [(js ''id'', JStr itemId)])"
  with showItem_soft_failure [of args itemId rt script]
  show "showItem rt script args
          = (Inr (soft_failure_envelope (js ''Item not found: '' @ itemId) ''ITEM_NOT_FOUND''),
             executor_calls script (JObj [(js ''id'', JStr itemId)]))"
    by blast
qed

text \<open>The theorem at the id \<open>zzz\<close>: \<open>updateTodo\<close> when the executor rejects after it
  killed the command at the time-out (the error has the code \<open>null\<close>), \<open>updateProject\<close>
  when the command fails with exit code 1, and \<open>showItem\<close> when the output is \<open>null\<close>.\<close>

theorem execution_errors_become_not_found_witness:
  "validateAndMapParameters [(js ''id'', JStr (js ''zzz''))] [] = Inr [(js ''id'', JStr (js ''zzz''))]
   \<and> truthy (obj_get [(js ''id'', JStr (js ''zzz''))] (js ''id''))
   \<and> validateStringInput (obj_get [(js ''id'', JStr (js ''zzz''))] (js ''id'')) (js ''id'')
         maxStringLength = Inr (js ''zzz'')
   \<and> \<not> script_succeeds (throwing_runtime JNull (js ''Command failed: osascript''))
         (js ''run()'') (updateTodo_params [(js ''id'', JStr (js ''zzz''))])
   \<and> updateTodo (throwing_runtime JNull (js ''Command failed: osascript''))
         (js ''run()'') [(js ''id'', JStr (js ''zzz''))]
       = (Inr (JObj [(js ''content'',
                    JArr [JObj [(js ''type'', JStr (js ''text'')),
                                (js ''text'',
                                 JStr (js ''{'' @ quoted ''success'' @ js '':false,''
                                       @ quoted ''message'' @ js '':'' @ quoted ''To-do not found: zzz'' @ js '',''
                                       @ quoted ''error'' @ js '':'' @ quoted ''TODO_NOT_FOUND'' @ js ''}''))]])]),
          [(js ''run()'', updateTodo_params [(js ''id'', JStr (js ''zzz''))])])
   \<and> \<not> script_succeeds (throwing_runtime (JNum 1) (js ''Command failed: osascript''))
         (js ''run()'') (updateProject_params [(js ''id'', JStr (js ''zzz''))])
   \<and> updateProject (throwing_runtime (JNum 1) (js ''Command failed: osascript''))
         (js ''run()'') [(js ''id'', JStr (js ''zzz''))]
       = (Inr (JObj [(js ''content'',
                    JArr [JObj [(js ''type'', JStr (js ''text'')),
                                (js ''text'',
                                 JStr (js ''{'' @ quoted ''success'' @ js '':false,''
                                       @ quoted ''message'' @ js '':'' @ quoted ''Project not found: zzz'' @ js '',''
                                       @ quoted ''error'' @ js '':'' @ quoted ''PROJECT_NOT_FOUND'' @ js ''}''))]])]),
          [(js ''run()'', updateProject_params [(js ''id'', JStr (js ''zzz''))])])
   \<and> \<not> script_succeeds (printing_runtime (js ''null'') JNull)
         (js ''run()'') (JObj [(js ''id'', JStr (js ''zzz''))])
   \<and> showItem (printing_runtime (js ''null'') JNull)
         (js ''run()'') [(js ''id'', JStr (js ''zzz''))]
       = (Inr (JObj [(js ''content'',
                    JArr [JObj [(js ''type'', JStr (js ''text'')),
                                (js ''text'',
                                 JStr (js ''{'' @ quoted ''success'' @ js '':false,''
                                       @ quoted ''message'' @ js '':'' @ quoted ''Item not found: zzz'' @ js '',''
                                       @ quoted ''error'' @ js '':'' @ quoted ''ITEM_NOT_FOUND'' @ js ''}''))]])]),
          [(js ''run()'', JObj [(js ''id'', JStr (js ''zzz''))])])"
proof -
  let ?args = "[(js ''id'', JStr (js ''zzz''))]"
  let ?rt1 = "throwing_runtime JNull (js ''Command failed: osascript'')"
  let ?rt2 = "throwing_runtime (JNum 1) (js ''Command failed: osascript'')"
  let ?rt3 = "printing_runtime (js ''null'') JNull"
  note v = zzz_validated(1) and i = zzz_validated(2) and s = zzz_validated(3)
    and tr = zzz_validated(5)
  have c: "executor_calls (js ''run()'') params = [(js ''run()'', params)]" for params
    by (simp add: executor_calls_def maxScriptSize_def js_def)
  have n1: "\<not> script_succeeds ?rt1 (js ''run()'') params" for params
    by (simp add: script_succeeds_def throwing_runtime_def)
  have n2: "\<not> script_succeeds ?rt2 (js ''run()'') params" for params
    by (simp add: script_succeeds_def throwing_runtime_def)
  have n3: "\<not> script_succeeds ?rt3 (js ''run()'') params" for params
    by (simp add: script_succeeds_def printing_runtime_def)
  note t1 = execution_errors_become_not_found
    [of ?rt1 "js ''run()''" _ ?args ?args "js ''zzz''", unfolded c]
  note t2 = execution_errors_become_not_found
    [of ?rt2 "js ''run()''" _ ?args ?args "js ''zzz''", unfolded c]
  note t3 = execution_errors_become_not_found
    [of ?rt3 "js ''run()''" _ ?args ?args "js ''zzz''", unfolded c]
  have c1: "updateTodo ?rt1 (js ''run()'') ?args
       = (Inr (soft_failure_envelope (js ''To-do not found: '' @ js ''zzz'') ''TODO_NOT_FOUND''),
          [(js ''run()'', updateTodo_params ?args)])"
    using t1 v tr n1 i by auto
  have c2: "updateProject ?rt2 (js ''run()'') ?args
       = (Inr (soft_failure_envelope (js ''Project not found: '' @ js ''zzz'')
                 ''PROJECT_NOT_FOUND''),
          [(js ''run()'', updateProject_params ?args)])"
    using t2 v tr n2 i by auto
  have c3: "showItem ?rt3 (js ''run()'') ?args
       = (Inr (soft_failure_envelope (js ''Item not found: '' @ js ''zzz'') ''ITEM_NOT_FOUND''),
          [(js ''run()'', JObj [(js ''id'', JStr (js ''zzz''))])])"
    using t3 s n3 by blast
  from v tr s n1 n2 n3 c1 [unfolded envelope_zzz] c2 [unfolded envelope_zzz]
    c3 [unfolded envelope_zzz]
  show ?thesis by blast
qed

end
